theory Spec2Isabelle
  imports Main "HOL-Library.Word"
begin

section \<open>Student Project Portal: the request handlers of server.js\<close>

text \<open>
  The portal is an Express application (server.js). Its handlers are modelled as
  functions from a request and the state they touch (the record store, the filesystem)
  to a response and the new state. Everything a handler takes from a library (the
  \<open>path\<close> and \<open>fs-extra\<close> modules, the clock, \<open>uuid\<close>) is a field of an
  environment record, so that the theorems hold for every behaviour of the platform.
\<close>

subsection \<open>JavaScript strings\<close>

text \<open>
  A JavaScript string is a sequence of UTF-16 code units: \<open>length\<close>, \<open>substring\<close>
  and \<open>slice\<close> count code units, and a regular expression without the \<open>u\<close> flag
  matches code units.
\<close>

type_synonym jschar = "16 word"
type_synonym jsstring = "jschar list"

definition js :: "string \<Rightarrow> jsstring" where
  "js s = map (\<lambda>c. of_nat (of_char c)) s"

subsection \<open>The folder naming utility (generateFolderName)\<close>

text \<open>The character class \<open>[<>:"/\\|?*]\<close> of the first \<open>replace\<close>.\<close>

definition isForbidden :: "jschar \<Rightarrow> bool" where
  "isForbidden c \<longleftrightarrow>
     c = 0x3C \<or> c = 0x3E \<or> c = 0x3A \<or> c = 0x22 \<or> c = 0x2F \<or>
     c = 0x5C \<or> c = 0x7C \<or> c = 0x3F \<or> c = 0x2A"

definition forbiddenChars :: "jschar set" where
  "forbiddenChars = {c. isForbidden c}"

text \<open>
  The class \<open>\s\<close>: tab, line feed, vertical tab, form feed, carriage return, space,
  no-break space, U+1680, U+2000 to U+200A, the line and paragraph separators, U+202F,
  U+205F, U+3000 and the byte order mark.
\<close>

definition isSpace :: "jschar \<Rightarrow> bool" where
  "isSpace c \<longleftrightarrow>
     c = 0x09 \<or> c = 0x0A \<or> c = 0x0B \<or> c = 0x0C \<or> c = 0x0D \<or> c = 0x20 \<or>
     c = 0xA0 \<or> c = 0x1680 \<or> (0x2000 \<le> c \<and> c \<le> 0x200A) \<or>
     c = 0x2028 \<or> c = 0x2029 \<or> c = 0x202F \<or> c = 0x205F \<or> c = 0x3000 \<or>
     c = 0xFEFF"

definition underscore :: jschar where
  "underscore = 0x5F"

text \<open>\<open>.replace(/[<>:"/\\|?*]/g, '_')\<close>: every forbidden character becomes an underscore.\<close>

definition replaceForbidden :: "jsstring \<Rightarrow> jsstring" where
  "replaceForbidden s = map (\<lambda>c. if isForbidden c then underscore else c) s"

text \<open>
  \<open>.replace(/\s+/g, '_')\<close>: every maximal run of whitespace becomes one underscore.
  The flag says whether the previous character belonged to a run.
\<close>

fun replaceSpaceRuns :: "bool \<Rightarrow> jsstring \<Rightarrow> jsstring" where
  "replaceSpaceRuns inRun [] = []"
| "replaceSpaceRuns inRun (c # cs) =
     (if isSpace c
      then (if inRun then replaceSpaceRuns True cs
            else underscore # replaceSpaceRuns True cs)
      else c # replaceSpaceRuns False cs)"

definition cleanProjectName :: "jsstring \<Rightarrow> jsstring" where
  "cleanProjectName projectName =
     take 50 (replaceSpaceRuns False (replaceForbidden projectName))"

text \<open>
  \<open>new Date()\<close>, read in UTC as \<open>toISOString\<close> does. The month is 1 to 12.
\<close>

record date =
  year :: int
  month :: nat
  day :: nat
  hours :: nat
  minutes :: nat
  seconds :: nat
  milliseconds :: nat

definition digit :: "nat \<Rightarrow> jschar" where
  "digit d = of_nat (48 + d mod 10)"

text \<open>The last \<open>w\<close> decimal digits of \<open>k\<close>, with leading zeros.\<close>

fun pad :: "nat \<Rightarrow> nat \<Rightarrow> jsstring" where
  "pad 0 k = []"
| "pad (Suc w) k = pad w (k div 10) @ [digit k]"

text \<open>
  \<open>Date.prototype.toISOString\<close>: \<open>YYYY-MM-DDTHH:mm:ss.sssZ\<close>, the year with a sign
  and six digits when it is not between 0 and 9999.
\<close>

definition isoYear :: "int \<Rightarrow> jsstring" where
  "isoYear y =
     (if 0 \<le> y \<and> y \<le> 9999 then pad 4 (nat y)
      else (if y < 0 then 0x2D else 0x2B) # pad 6 (nat \<bar>y\<bar>))"

definition toISOString :: "date \<Rightarrow> jsstring" where
  "toISOString d =
     isoYear (year d) @ [0x2D] @ pad 2 (month d) @ [0x2D] @ pad 2 (day d) @ [0x54] @
     pad 2 (hours d) @ [0x3A] @ pad 2 (minutes d) @ [0x3A] @ pad 2 (seconds d) @
     [0x2E] @ pad 3 (milliseconds d) @ [0x5A]"

text \<open>\<open>.replace(/[:.]/g, '-')\<close>\<close>

definition replaceColonDot :: "jsstring \<Rightarrow> jsstring" where
  "replaceColonDot s = map (\<lambda>c. if c = 0x3A \<or> c = 0x2E then 0x2D else c) s"

text \<open>\<open>.replace('T', '_')\<close>: a string pattern replaces the first occurrence only.\<close>

fun replaceFirstT :: "jsstring \<Rightarrow> jsstring" where
  "replaceFirstT [] = []"
| "replaceFirstT (c # cs) = (if c = 0x54 then underscore # cs else c # replaceFirstT cs)"

definition timestampOf :: "date \<Rightarrow> jsstring" where
  "timestampOf now = take 19 (replaceFirstT (replaceColonDot (toISOString now)))"

text \<open>\<open>generateFolderName\<close>, server.js lines 45 to 59; \<open>now\<close> is \<open>new Date()\<close>.\<close>

definition generateFolderName :: "date \<Rightarrow> jsstring \<Rightarrow> jsstring" where
  "generateFolderName now projectName =
     cleanProjectName projectName @ [underscore] @ timestampOf now"

text \<open>The characters a timestamp can contain: digits, \<open>-\<close>, \<open>+\<close>, \<open>T\<close>, \<open>Z\<close>, \<open>_\<close>.\<close>

definition isoChar :: "jschar \<Rightarrow> bool" where
  "isoChar c \<longleftrightarrow> (0x30 \<le> c \<and> c \<le> 0x39) \<or> c = 0x2D \<or> c = 0x2B \<or> c = 0x54 \<or>
     c = 0x5A \<or> c = 0x5F"

subsection \<open>Values of the data model\<close>

text \<open>A number in a template literal: its decimal digits.\<close>

fun showNat :: "nat \<Rightarrow> jsstring" where
  "showNat n = (if n < 10 then [digit n] else showNat (n div 10) @ [digit n])"

declare showNat.simps [simp del]

definition newline :: jschar where
  "newline = 0x0A"

text \<open>\<open>.join(sep)\<close> of an array of strings.\<close>

fun joinWith :: "jsstring \<Rightarrow> jsstring list \<Rightarrow> jsstring" where
  "joinWith sep [] = []"
| "joinWith sep [x] = x"
| "joinWith sep (x # y # ys) = x @ sep @ joinWith sep (y # ys)"

text \<open>\<open>!s\<close> for a value that is a string or undefined: undefined and \<open>''\<close> are falsy.\<close>

definition falsy :: "jsstring option \<Rightarrow> bool" where
  "falsy v \<longleftrightarrow> v = None \<or> v = Some []"

text \<open>\<open>v || d\<close> for a value that is a string or undefined.\<close>

definition orElse :: "jsstring option \<Rightarrow> jsstring \<Rightarrow> jsstring" where
  "orElse v d = (if falsy v then d else the v)"

text \<open>A string or undefined inside a template literal.\<close>

definition inTemplate :: "jsstring option \<Rightarrow> jsstring" where
  "inTemplate v = (case v of None \<Rightarrow> js ''undefined'' | Some s \<Rightarrow> s)"

record member =
  name :: jsstring
  usn :: jsstring

text \<open>File metadata \<open>{ name, path, size }\<close>.\<close>

record filemeta =
  fileName :: jsstring
  filePath :: jsstring
  fileSize :: nat

text \<open>
  The \<open>files\<close> object of a record: \<open>readme\<close>, \<open>installation\<close> and \<open>source\<close> are
  set when the record is built, \<open>studentInfo\<close> is added later, and \<open>teamMembers\<close> is a
  key that only records of the older layout carry.
\<close>

record projectFiles =
  readme :: filemeta
  installation :: filemeta
  source :: filemeta
  studentInfo :: "filemeta option"
  teamMembersFile :: "filemeta option"

text \<open>
  \<open>projectData\<close>. The field \<open>id\<close> is called \<open>recordId\<close> here; \<open>folderName\<close> is
  copied from the request body unchecked, so it can be undefined.
\<close>

record project =
  recordId :: jsstring
  projectName :: jsstring
  timestamp :: jsstring
  teamMembers :: "member list"
  folderName :: "jsstring option"
  projectPath :: jsstring
  files :: projectFiles

text \<open>An exception: a \<open>TypeError\<close> for reading the named property of undefined, or an
  error of the filesystem library with its message.\<close>

datatype jserror = TypeErrorUndefined jsstring | FsError jsstring

subsection \<open>The platform\<close>

text \<open>
  What the handlers call in \<open>path\<close>, \<open>fs-extra\<close>, \<open>uuid\<close> and \<open>Date\<close>, over a
  world \<open>'w\<close> (the disk, the clock, the random source). An operation of \<open>fs\<close> that
  can throw returns the error, if any, beside the world it leaves.
\<close>

record 'w platform =
  path_join :: "jsstring list \<Rightarrow> jsstring"
  path_extname :: "jsstring \<Rightarrow> jsstring"
  fs_existsSync :: "jsstring \<Rightarrow> 'w \<Rightarrow> bool"
  fs_stat_size :: "jsstring \<Rightarrow> 'w \<Rightarrow> jserror + nat"
  fs_move :: "jsstring \<Rightarrow> jsstring \<Rightarrow> bool \<Rightarrow> 'w \<Rightarrow> jserror option \<times> 'w"
  fs_writeFile :: "jsstring \<Rightarrow> jsstring \<Rightarrow> 'w \<Rightarrow> jserror option \<times> 'w"
  fs_writeJson :: "jsstring \<Rightarrow> project \<Rightarrow> 'w \<Rightarrow> jserror option \<times> 'w"
  fs_remove :: "jsstring \<Rightarrow> 'w \<Rightarrow> jserror option \<times> 'w"
  uuidv4 :: "'w \<Rightarrow> jsstring \<times> 'w"
  newDate :: "'w \<Rightarrow> date"
  toLocaleString :: "date \<Rightarrow> jsstring"

subsection \<open>The record store (DatabaseService)\<close>

text \<open>
  Modelled from the spec: the module \<open>./database\<close> (\<open>initializeDatabase\<close>,
  \<open>DatabaseService\<close>) is not among the sources. The store is the collection in
  insertion order, with the number of times the backing JSON file has been rewritten
  (every mutating call diskWrites it).
\<close>

record store =
  records :: "project list"
  diskWrites :: nat

text \<open>Modelled from the spec: the store of \<open>./database\<close> before any record is created.\<close>

definition emptyStore :: store where
  "emptyStore = \<lparr>records = [], diskWrites = 0\<rparr>"

text \<open>
  Modelled from the spec: \<open>createProject\<close> of \<open>./database\<close> ("appends to the
  in-memory collection, persists the whole collection to disk, returns the record").
\<close>

definition createProject :: "project \<Rightarrow> store \<Rightarrow> store" where
  "createProject r db = db\<lparr>records := records db @ [r], diskWrites := Suc (diskWrites db)\<rparr>"

text \<open>Replace the first element that satisfies \<open>P\<close>.\<close>

fun replaceFirst :: "('a \<Rightarrow> bool) \<Rightarrow> 'a \<Rightarrow> 'a list \<Rightarrow> 'a list" where
  "replaceFirst P y [] = []"
| "replaceFirst P y (x # xs) = (if P x then y # xs else x # replaceFirst P y xs)"

text \<open>
  Modelled from the spec: \<open>updateProject\<close> of \<open>./database\<close> ("replaces the record
  matching id in place", a failure indicator and no write when the id is absent). Both
  callers pass a whole record as the patch, so merging and overwriting agree.
\<close>

definition updateProject :: "jsstring \<Rightarrow> project \<Rightarrow> store \<Rightarrow> store" where
  "updateProject i patch db =
     (if list_ex (\<lambda>r. recordId r = i) (records db)
      then db\<lparr>records := replaceFirst (\<lambda>r. recordId r = i) patch (records db),
              diskWrites := Suc (diskWrites db)\<rparr>
      else db)"

text \<open>
  Modelled from the spec: \<open>getAllProjects\<close> of \<open>./database\<close> ("returns the full
  collection in insertion order").
\<close>

definition getAllProjects :: "store \<Rightarrow> project list" where
  "getAllProjects db = records db"

text \<open>
  Modelled from the spec: \<open>getProjectById\<close> of \<open>./database\<close> ("linear lookup by
  identifier equality; returns not-found indicator if absent"). The key is whatever the
  caller passes: a string or undefined.
\<close>

definition getProjectById :: "jsstring option \<Rightarrow> store \<Rightarrow> project option" where
  "getProjectById key db = find (\<lambda>r. Some (recordId r) = key) (records db)"

subsection \<open>The server's state, requests and responses\<close>

text \<open>
  The state a handler runs in: the world of the platform, the record store, and what
  \<open>console.error\<close> has printed (the text before the error, and the error).
\<close>

record 'w server =
  world :: 'w
  db :: store
  errlog :: "(jsstring \<times> jserror) list"

datatype artifact = Readme | Installation | Source

text \<open>The JSON a handler sends, beside the \<open>success\<close> flag.\<close>

datatype payload =
    ErrorMsg jsstring
  | ErrorOf jserror
  | Uploaded artifact jsstring jsstring nat
  | Completed project jsstring
  | Migrated jsstring nat
  | ZipOf jsstring jsstring "jsstring option" nat

text \<open>
  \<open>ErrorMsg m\<close> is \<open>{ error: m }\<close> and \<open>ErrorOf e\<close> is \<open>{ error: e.message }\<close>.
  \<open>Uploaded k p n s\<close> is \<open>{ readmePath | installPath | sourcePath: p, fileName: n,
  fileSize: s }\<close>, the key chosen by \<open>k\<close>. \<open>Completed d m\<close> is \<open>{ projectData: d,
  message: m }\<close> and \<open>Migrated m n\<close> is \<open>{ message: m, updatedCount: n }\<close>.
  \<open>ZipOf a d r l\<close> is no JSON: the attachment named \<open>a\<close>, a ZIP archive at
  compression level \<open>l\<close> of the directory \<open>d\<close>, stored under \<open>r\<close> in the archive.
\<close>

record response =
  status :: nat
  success :: bool
  body :: payload

definition reply :: "nat \<Rightarrow> bool \<Rightarrow> payload \<Rightarrow> response" where
  "reply st ok b = \<lparr>status = st, success = ok, body = b\<rparr>"

subsection \<open>The upload staging handler\<close>

text \<open>\<open>limits.fileSize\<close> of the multer configuration, server.js lines 37 to 42.\<close>

definition fileSizeLimit :: nat where
  "fileSizeLimit = 50 * 1024 * 1024"

text \<open>
  \<open>req.file\<close>: the field the file came in, the client's file name, the path multer
  staged it at and the number of bytes it wrote there.
\<close>

record upfile =
  fieldname :: jsstring
  originalname :: jsstring
  stagedPath :: jsstring
  stagedSize :: nat

text \<open>A multipart request: the file part, if any, and \<open>projectPath\<close> of the body.\<close>

record uploadRequest =
  filePart :: "upfile option"
  bodyProjectPath :: "jsstring option"

datatype multerError = LIMIT_FILE_SIZE | LIMIT_UNEXPECTED_FILE

text \<open>
  \<open>upload.single(field)\<close>: without a file part the request goes on with \<open>req.file\<close>
  undefined; a file in another field, or one larger than \<open>limits.fileSize\<close>, ends
  the request with an error and the handler never runs.
\<close>

definition upload_single :: "jsstring \<Rightarrow> uploadRequest \<Rightarrow> multerError + uploadRequest" where
  "upload_single field req =
     (case filePart req of
        None \<Rightarrow> Inr req
      | Some f \<Rightarrow>
          if fieldname f \<noteq> field then Inl LIMIT_UNEXPECTED_FILE
          else if fileSizeLimit < stagedSize f then Inl LIMIT_FILE_SIZE
          else Inr req)"

text \<open>What a request ends with: a response of the handler, or an error of the middleware
  handed to \<open>next\<close>.\<close>

datatype result = Replied response | NextError multerError

definition logError :: "jsstring \<Rightarrow> jserror \<Rightarrow> 'w server \<Rightarrow> 'w server" where
  "logError what e s = s\<lparr>errlog := errlog s @ [(what, e)]\<rparr>"

text \<open>
  The common shape of the three handlers: \<open>await fs.move(req.file.path, dest,
  { overwrite: true })\<close> inside \<open>try\<close>, then the JSON.
\<close>

definition moveAndReply ::
  "'w platform \<Rightarrow> artifact \<Rightarrow> jsstring \<Rightarrow> upfile \<Rightarrow> jsstring \<Rightarrow> jsstring \<Rightarrow> 'w server
     \<Rightarrow> result \<times> 'w server" where
  "moveAndReply env kind what f dest finalName s =
     (case fs_move env (stagedPath f) dest True (world s) of
        (None, w') \<Rightarrow>
          (Replied (reply 200 True (Uploaded kind dest finalName (stagedSize f))),
           s\<lparr>world := w'\<rparr>)
      | (Some e, w') \<Rightarrow>
          (Replied (reply 500 False (ErrorOf e)), logError what e (s\<lparr>world := w'\<rparr>)))"

text \<open>\<open>POST /api/upload-readme\<close>, server.js lines 152 to 181.\<close>

definition upload_readme :: "'w platform \<Rightarrow> uploadRequest \<Rightarrow> 'w server \<Rightarrow> result \<times> 'w server" where
  "upload_readme env req s =
     (case filePart req of
        None \<Rightarrow> (Replied (reply 400 False (ErrorMsg (js ''No file uploaded''))), s)
      | Some f \<Rightarrow>
          if falsy (bodyProjectPath req)
          then (Replied (reply 400 False (ErrorMsg (js ''Project path is required''))), s)
          else
            let ext = path_extname env (originalname f);
                readmeFileName = (if ext \<noteq> [] then js ''ReadMe'' @ ext else js ''ReadMe.txt'');
                readmePath = path_join env [the (bodyProjectPath req), js ''2.README'', readmeFileName]
            in moveAndReply env Readme (js ''Error uploading README:'') f readmePath readmeFileName s)"

text \<open>\<open>POST /api/upload-installation\<close>, server.js lines 184 to 212.\<close>

definition upload_installation ::
  "'w platform \<Rightarrow> uploadRequest \<Rightarrow> 'w server \<Rightarrow> result \<times> 'w server" where
  "upload_installation env req s =
     (case filePart req of
        None \<Rightarrow> (Replied (reply 400 False (ErrorMsg (js ''No file uploaded''))), s)
      | Some f \<Rightarrow>
          if falsy (bodyProjectPath req)
          then (Replied (reply 400 False (ErrorMsg (js ''Project path is required''))), s)
          else
            let ext = path_extname env (originalname f);
                installPath = path_join env
                  [the (bodyProjectPath req), js ''1.INSTALLATION'', js ''installation'' @ ext]
            in moveAndReply env Installation (js ''Error uploading installation file:'') f
                 installPath (js ''installation'' @ ext) s)"

text \<open>\<open>POST /api/upload-source\<close>, server.js lines 215 to 240.\<close>

definition upload_source :: "'w platform \<Rightarrow> uploadRequest \<Rightarrow> 'w server \<Rightarrow> result \<times> 'w server" where
  "upload_source env req s =
     (case filePart req of
        None \<Rightarrow> (Replied (reply 400 False (ErrorMsg (js ''No file uploaded''))), s)
      | Some f \<Rightarrow>
          if falsy (bodyProjectPath req)
          then (Replied (reply 400 False (ErrorMsg (js ''Project path is required''))), s)
          else
            let sourcePath = path_join env
                  [the (bodyProjectPath req), js ''3.SOURCE'', js ''project.zip'']
            in moveAndReply env Source (js ''Error uploading source file:'') f
                 sourcePath (js ''project.zip'') s)"

text \<open>A route with \<open>upload.single(field)\<close> before its handler.\<close>

definition withUpload ::
  "jsstring \<Rightarrow> (uploadRequest \<Rightarrow> 'w server \<Rightarrow> result \<times> 'w server) \<Rightarrow> uploadRequest
     \<Rightarrow> 'w server \<Rightarrow> result \<times> 'w server" where
  "withUpload field handler req s =
     (case upload_single field req of
        Inl e \<Rightarrow> (NextError e, s)
      | Inr req' \<Rightarrow> handler req' s)"

subsection \<open>The completion handler\<close>

text \<open>A file object of the request body, \<open>{ name, size }\<close>; each key can be missing.\<close>

record fileArg =
  argName :: "jsstring option"
  argSize :: "nat option"

text \<open>The body of \<open>POST /api/complete-project\<close>; every key can be missing.\<close>

record completeRequest =
  body_projectName :: "jsstring option"
  body_teamMembers :: "member list option"
  body_projectPath :: "jsstring option"
  body_folderName :: "jsstring option"
  body_readmeFile :: "fileArg option"
  body_installationFile :: "fileArg option"
  body_sourceFile :: "fileArg option"

text \<open>\<open>`Member ${index + 1}:\nName: ${member.name}\nUSN: ${member.usn}`\<close>\<close>

definition memberLines :: "nat \<Rightarrow> member \<Rightarrow> jsstring" where
  "memberLines index m =
     js ''Member '' @ showNat (index + 1) @ js '':'' @ [newline] @
     js ''Name: '' @ name m @ [newline] @ js ''USN: '' @ usn m"

text \<open>\<open>teamMembers.map((member, index) => ...).join('\n\n')\<close>\<close>

definition studentInfoContent :: "member list \<Rightarrow> jsstring" where
  "studentInfoContent ms =
     joinWith [newline, newline] (map (\<lambda>(i, m). memberLines i m) (enumerate 0 ms))"

text \<open>The template of \<open>studentInfoHeader\<close>; \<open>localNow\<close> is \<open>new Date().toLocaleString()\<close>.\<close>

definition studentInfoText :: "jsstring \<Rightarrow> jsstring \<Rightarrow> member list \<Rightarrow> jsstring" where
  "studentInfoText pname localNow ms =
     js ''STUDENT INFORMATION'' @ [newline] @ js ''=================='' @ [newline] @
     js ''Project: '' @ pname @ [newline] @ js ''Date: '' @ localNow @ [newline, newline] @
     studentInfoContent ms"

text \<open>
  The object literal of lines 260 to 287, once the three file objects are known to be
  there.
\<close>

definition buildProjectData ::
  "'w platform \<Rightarrow> completeRequest \<Rightarrow> jsstring \<Rightarrow> jsstring \<Rightarrow> fileArg \<Rightarrow> fileArg \<Rightarrow> fileArg
     \<Rightarrow> project" where
  "buildProjectData env b newId now readmeFile installationFile sourceFile =
     (let ppath = the (body_projectPath b) in
      \<lparr>recordId = newId,
       projectName = the (body_projectName b),
       timestamp = now,
       teamMembers = map (\<lambda>m. \<lparr>name = name m, usn = usn m\<rparr>) (the (body_teamMembers b)),
       folderName = body_folderName b,
       projectPath = ppath,
       files =
         \<lparr>readme =
            \<lparr>fileName = orElse (argName readmeFile) (js ''ReadMe.txt''),
             filePath = path_join env
               [ppath, js ''2.README'', orElse (argName readmeFile) (js ''ReadMe.txt'')],
             fileSize = (case argSize readmeFile of None \<Rightarrow> 0 | Some n \<Rightarrow> n)\<rparr>,
          installation =
            \<lparr>fileName = orElse (argName installationFile) (js ''installation.txt''),
             filePath = path_join env
               [ppath, js ''1.INSTALLATION'',
                orElse (argName installationFile) (js ''installation.txt'')],
             fileSize = (case argSize installationFile of None \<Rightarrow> 0 | Some n \<Rightarrow> n)\<rparr>,
          source =
            \<lparr>fileName = js ''project.zip'',
             filePath = path_join env [ppath, js ''3.SOURCE'', js ''project.zip''],
             fileSize = (case argSize sourceFile of None \<Rightarrow> 0 | Some n \<Rightarrow> n)\<rparr>,
          studentInfo = None,
          teamMembersFile = None\<rparr>\<rparr>)"

text \<open>
  Lines 289 to 308: the lookup by name and path, the update or the creation, and then
  the call \<open>dbService.createProject(projectData)\<close> of line 308, which runs on both
  branches. The result is the record as saved and the store.
\<close>

definition saveProject :: "project \<Rightarrow> store \<Rightarrow> project \<times> store" where
  "saveProject projectData d =
     (case find (\<lambda>p. projectName p = projectName projectData
                      \<and> projectPath p = projectPath projectData) (getAllProjects d) of
        Some existingProject \<Rightarrow>
          let pd = projectData\<lparr>recordId := recordId existingProject,
                               timestamp := timestamp existingProject\<rparr>
          in (pd, createProject pd (updateProject (recordId existingProject) pd d))
      | None \<Rightarrow> (projectData, createProject projectData (createProject projectData d)))"

text \<open>
  Lines 310 to 327: the size recorded for \<open>student-info.txt\<close>. When the file exists
  it is \<open>stats.size\<close>; when it does not, the handler writes the header as UTF-8 and
  takes \<open>studentInfoHeader.length\<close>.
\<close>

definition ensureStudentInfo ::
  "'w platform \<Rightarrow> jsstring \<Rightarrow> jsstring \<Rightarrow> member list \<Rightarrow> 'w \<Rightarrow> (jserror + nat) \<times> 'w" where
  "ensureStudentInfo env studentInfoPath pname ms w =
     (if fs_existsSync env studentInfoPath w
      then (fs_stat_size env studentInfoPath w, w)
      else
        let studentInfoHeader =
              studentInfoText pname (toLocaleString env (newDate env w)) ms
        in (case fs_writeFile env studentInfoPath studentInfoHeader w of
              (Some e, w') \<Rightarrow> (Inl e, w')
            | (None, w') \<Rightarrow> (Inr (length studentInfoHeader), w')))"

text \<open>
  The body of the \<open>try\<close> after validation. Reading \<open>readmeFile.name\<close>,
  \<open>installationFile.name\<close> or \<open>sourceFile.size\<close> of a missing object throws.
\<close>

definition complete_try ::
  "'w platform \<Rightarrow> completeRequest \<Rightarrow> 'w server \<Rightarrow> (jserror + project) \<times> 'w server" where
  "complete_try env b s =
     (let (newId, w1) = uuidv4 env (world s);
          now = toISOString (newDate env w1);
          s1 = s\<lparr>world := w1\<rparr>
      in case body_readmeFile b of
           None \<Rightarrow> (Inl (TypeErrorUndefined (js ''name'')), s1)
         | Some readmeFile \<Rightarrow>
       (case body_installationFile b of
           None \<Rightarrow> (Inl (TypeErrorUndefined (js ''name'')), s1)
         | Some installationFile \<Rightarrow>
       (case body_sourceFile b of
           None \<Rightarrow> (Inl (TypeErrorUndefined (js ''size'')), s1)
         | Some sourceFile \<Rightarrow>
           let (projectData, d) =
                 saveProject
                   (buildProjectData env b newId now readmeFile installationFile sourceFile)
                   (db s1);
               s2 = s1\<lparr>db := d\<rparr>;
               studentInfoPath = path_join env [projectPath projectData, js ''student-info.txt'']
           in (case ensureStudentInfo env studentInfoPath (projectName projectData)
                      (the (body_teamMembers b)) (world s2) of
                 (Inl e, w3) \<Rightarrow> (Inl e, s2\<lparr>world := w3\<rparr>)
               | (Inr studentInfoSize, w3) \<Rightarrow>
                   let projectData' = projectData
                         \<lparr>files := (files projectData)
                            \<lparr>studentInfo := Some \<lparr>fileName = js ''student-info.txt'',
                                                   filePath = studentInfoPath,
                                                   fileSize = studentInfoSize\<rparr>\<rparr>\<rparr>;
                       infoPath = path_join env [projectPath projectData, js ''project-info.json'']
                   in (case fs_writeJson env infoPath projectData' w3 of
                         (Some e, w4) \<Rightarrow> (Inl e, s2\<lparr>world := w4\<rparr>)
                       | (None, w4) \<Rightarrow> (Inr projectData', s2\<lparr>world := w4\<rparr>))))))"

text \<open>\<open>POST /api/complete-project\<close>, server.js lines 243 to 349.\<close>

definition complete_project ::
  "'w platform \<Rightarrow> completeRequest \<Rightarrow> 'w server \<Rightarrow> result \<times> 'w server" where
  "complete_project env b s =
     (if falsy (body_projectName b) \<or> body_teamMembers b = None \<or> falsy (body_projectPath b)
      then (Replied (reply 400 False (ErrorMsg (js ''Missing required fields''))), s)
      else
        (case complete_try env b s of
           (Inr projectData, s') \<Rightarrow>
             (Replied (reply 200 True
                (Completed projectData (js ''Project submitted successfully''))), s')
         | (Inl e, s') \<Rightarrow>
             (Replied (reply 500 False (ErrorOf e)),
              logError (js ''Error completing project:'') e s')))"

subsection \<open>The whole-project download\<close>

text \<open>
  \<open>GET /api/download-project/:projectId\<close>, server.js lines 465 to 499. \<open>params\<close> is
  \<open>req.params\<close>; the handler reads its key \<open>id\<close>.
\<close>

definition download_project ::
  "'w platform \<Rightarrow> (jsstring \<times> jsstring) list \<Rightarrow> 'w server \<Rightarrow> result \<times> 'w server" where
  "download_project env params s =
     (let projectId = map_of params (js ''id'') in
      case getProjectById projectId (db s) of
        None \<Rightarrow> (Replied (reply 404 False (ErrorMsg (js ''Project not found''))), s)
      | Some project \<Rightarrow>
          if \<not> fs_existsSync env (projectPath project) (world s)
          then (Replied (reply 404 False (ErrorMsg (js ''Project folder not found''))), s)
          else (Replied (reply 200 True
                  (ZipOf (inTemplate (folderName project) @ js ''.zip'')
                     (projectPath project) (folderName project) 9)), s))"

subsection \<open>The legacy folder migration\<close>

text \<open>
  One of the three renamings: \<open>fs.move(oldDir, newDir)\<close> when the old directory exists
  and the new one does not. The result says whether it set \<open>needsUpdate\<close>.
\<close>

definition renameLegacy ::
  "'w platform \<Rightarrow> jsstring \<Rightarrow> jsstring \<Rightarrow> jsstring \<Rightarrow> 'w \<Rightarrow> (jserror + bool) \<times> 'w" where
  "renameLegacy env base oldName newName w =
     (let oldDir = path_join env [base, oldName];
          newDir = path_join env [base, newName]
      in if fs_existsSync env oldDir w \<and> \<not> fs_existsSync env newDir w
         then (case fs_move env oldDir newDir False w of
                 (None, w') \<Rightarrow> (Inr True, w')
               | (Some e, w') \<Rightarrow> (Inl e, w'))
         else (Inr False, w))"

text \<open>\<open>if (fs.existsSync(p)) await fs.remove(p)\<close>\<close>

definition removeIfExists :: "'w platform \<Rightarrow> jsstring \<Rightarrow> 'w \<Rightarrow> jserror option \<times> 'w" where
  "removeIfExists env p w = (if fs_existsSync env p w then fs_remove env p w else (None, w))"

text \<open>
  Lines 547 to 588: when \<open>student-info.txt\<close> is missing and the record has team
  members, write it, remove the two older files and put the file into the record. The
  result is the changed record, if the branch ran.
\<close>

definition backfillStudentInfo ::
  "'w platform \<Rightarrow> project \<Rightarrow> 'w \<Rightarrow> (jserror + project option) \<times> 'w" where
  "backfillStudentInfo env project w =
     (let studentInfoPath = path_join env [projectPath project, js ''student-info.txt''];
          oldTeamMembersPath = path_join env [projectPath project, js ''team-members.txt''];
          oldNumberedStudentInfoPath =
            path_join env [projectPath project, js ''4.Student-info.txt'']
      in if \<not> fs_existsSync env studentInfoPath w \<and> teamMembers project \<noteq> []
         then
           let studentInfoHeader =
                 studentInfoText (projectName project) (toLocaleString env (newDate env w))
                   (teamMembers project)
           in (case fs_writeFile env studentInfoPath studentInfoHeader w of
                 (Some e, w1) \<Rightarrow> (Inl e, w1)
               | (None, w1) \<Rightarrow>
             (case removeIfExists env oldTeamMembersPath w1 of
                 (Some e, w2) \<Rightarrow> (Inl e, w2)
               | (None, w2) \<Rightarrow>
             (case removeIfExists env oldNumberedStudentInfoPath w2 of
                 (Some e, w3) \<Rightarrow> (Inl e, w3)
               | (None, w3) \<Rightarrow>
                   (Inr (Some (project
                      \<lparr>files := (files project)
                         \<lparr>studentInfo := Some \<lparr>fileName = js ''student-info.txt'',
                                                filePath = studentInfoPath,
                                                fileSize = length studentInfoHeader\<rparr>,
                          teamMembersFile := None\<rparr>\<rparr>)), w3))))
         else (Inr None, w))"

text \<open>
  The body of the inner \<open>try\<close>, lines 519 to 594, for one project: the error it threw,
  if any, beside the state and the count it leaves. \<open>updatedCount++\<close> is its last
  statement, after \<open>dbService.updateProject\<close>.
\<close>

definition migrateProject ::
  "'w platform \<Rightarrow> project \<Rightarrow> 'w server \<times> nat \<Rightarrow> jserror option \<times> 'w server \<times> nat" where
  "migrateProject env project st =
     (let s = fst st; updatedCount = snd st; base = projectPath project in
      if fs_existsSync env base (world s)
      then
        (case renameLegacy env base (js ''README'') (js ''2.README'') (world s) of
           (Inl e, w1) \<Rightarrow> (Some e, s\<lparr>world := w1\<rparr>, updatedCount)
         | (Inr r1, w1) \<Rightarrow>
        (case renameLegacy env base (js ''INSTALLATION'') (js ''1.INSTALLATION'') w1 of
           (Inl e, w2) \<Rightarrow> (Some e, s\<lparr>world := w2\<rparr>, updatedCount)
         | (Inr r2, w2) \<Rightarrow>
        (case renameLegacy env base (js ''SOURCE'') (js ''3.SOURCE'') w2 of
           (Inl e, w3) \<Rightarrow> (Some e, s\<lparr>world := w3\<rparr>, updatedCount)
         | (Inr r3, w3) \<Rightarrow>
        (case backfillStudentInfo env project w3 of
           (Inl e, w4) \<Rightarrow> (Some e, s\<lparr>world := w4\<rparr>, updatedCount)
         | (Inr changed, w4) \<Rightarrow>
             let needsUpdate = (r1 \<or> r2 \<or> r3 \<or> changed \<noteq> None);
                 updatedProject = (case changed of None \<Rightarrow> project | Some u \<Rightarrow> u)
             in if needsUpdate
                then (None,
                      s\<lparr>world := w4,
                        db := updateProject (recordId project) updatedProject (db s)\<rparr>,
                      updatedCount + 1)
                else (None, s\<lparr>world := w4\<rparr>, updatedCount)))))
      else (None, s, updatedCount))"

text \<open>One turn of the \<open>for\<close> loop: the \<open>try\<close> and its \<open>catch\<close>, which only logs.\<close>

definition migrateStep :: "'w platform \<Rightarrow> project \<Rightarrow> 'w server \<times> nat \<Rightarrow> 'w server \<times> nat" where
  "migrateStep env project st =
     (case migrateProject env project st of
        (None, st') \<Rightarrow> st'
      | (Some e, s', n) \<Rightarrow>
          (logError (js ''Error updating project '' @ recordId project @ js '':'') e s', n))"

text \<open>\<open>for (const project of projects)\<close>\<close>

fun migrateAll :: "'w platform \<Rightarrow> project list \<Rightarrow> 'w server \<times> nat \<Rightarrow> 'w server \<times> nat" where
  "migrateAll env [] st = st"
| "migrateAll env (project # projects) st = migrateAll env projects (migrateStep env project st)"

text \<open>
  \<open>POST /api/update-existing-folders\<close>, server.js lines 513 to 609. Nothing outside
  the inner \<open>try\<close> throws here, so the outer \<open>catch\<close> has no branch.
\<close>

definition update_existing_folders :: "'w platform \<Rightarrow> 'w server \<Rightarrow> result \<times> 'w server" where
  "update_existing_folders env s =
     (let projects = getAllProjects (db s);
          (s', updatedCount) = migrateAll env projects (s, 0)
      in (Replied (reply 200 True
            (Migrated (js ''Updated '' @ showNat updatedCount
                         @ js '' existing folders with new file structure'')
               updatedCount)), s'))"

subsection \<open>The route layer\<close>

datatype request =
    PostUploadReadme uploadRequest
  | PostUploadInstallation uploadRequest
  | PostUploadSource uploadRequest
  | PostCompleteProject completeRequest
  | GetDownloadProject jsstring
  | PostUpdateExistingFolders

text \<open>
  The routes of these handlers. The path \<open>/api/download-project/:projectId\<close> binds
  the segment to the key \<open>projectId\<close> of \<open>req.params\<close>.
\<close>

definition handle :: "'w platform \<Rightarrow> request \<Rightarrow> 'w server \<Rightarrow> result \<times> 'w server" where
  "handle env rq s =
     (case rq of
        PostUploadReadme r \<Rightarrow> withUpload (js ''readme'') (upload_readme env) r s
      | PostUploadInstallation r \<Rightarrow> withUpload (js ''installation'') (upload_installation env) r s
      | PostUploadSource r \<Rightarrow> withUpload (js ''source'') (upload_source env) r s
      | PostCompleteProject b \<Rightarrow> complete_project env b s
      | GetDownloadProject v \<Rightarrow> download_project env [(js ''projectId'', v)] s
      | PostUpdateExistingFolders \<Rightarrow> update_existing_folders env s)"

text \<open>A sequence of requests, one after the other.\<close>

fun serve :: "'w platform \<Rightarrow> request list \<Rightarrow> 'w server \<Rightarrow> 'w server" where
  "serve env [] s = s"
| "serve env (rq # rqs) s = serve env rqs (snd (handle env rq s))"

subsection \<open>A platform to run the handlers on\<close>

text \<open>
  The theorems below hold for every platform. To evaluate the handlers on concrete
  requests, this is one: the POSIX flavour of \<open>path\<close> and a disk kept in memory.
\<close>

definition slash :: jschar where
  "slash = 0x2F"

definition dot :: jschar where
  "dot = 0x2E"

fun splitOn :: "'a \<Rightarrow> 'a list \<Rightarrow> 'a list list" where
  "splitOn sep [] = [[]]"
| "splitOn sep (c # cs) =
     (if c = sep then [] # splitOn sep cs
      else (case splitOn sep cs of [] \<Rightarrow> [[c]] | seg # segs \<Rightarrow> (c # seg) # segs))"

text \<open>
  \<open>normalizeString\<close> of \<open>path\<close>: empty segments and \<open>.\<close> are dropped, \<open>..\<close> removes
  the segment before it, or stays when there is none to remove and the path is relative.
\<close>

fun normalizeSegments :: "bool \<Rightarrow> jsstring list \<Rightarrow> jsstring list \<Rightarrow> jsstring list" where
  "normalizeSegments allowAboveRoot res [] = res"
| "normalizeSegments allowAboveRoot res (seg # segs) =
     (if seg = [] \<or> seg = [dot] then normalizeSegments allowAboveRoot res segs
      else if seg = [dot, dot]
      then (if res \<noteq> [] \<and> last res \<noteq> [dot, dot]
            then normalizeSegments allowAboveRoot (butlast res) segs
            else if allowAboveRoot
            then normalizeSegments allowAboveRoot (res @ [[dot, dot]]) segs
            else normalizeSegments allowAboveRoot res segs)
      else normalizeSegments allowAboveRoot (res @ [seg]) segs)"

text \<open>\<open>path.posix.normalize\<close>\<close>

definition posix_normalize :: "jsstring \<Rightarrow> jsstring" where
  "posix_normalize p =
     (if p = [] then [dot]
      else
        let isAbsolute = (hd p = slash);
            trailingSeparator = (last p = slash);
            res = joinWith [slash] (normalizeSegments (\<not> isAbsolute) [] (splitOn slash p))
        in if res = []
           then (if isAbsolute then [slash] else if trailingSeparator then [dot, slash] else [dot])
           else (if isAbsolute then [slash] else []) @ res
                  @ (if trailingSeparator then [slash] else []))"

text \<open>\<open>path.posix.join\<close>\<close>

definition posix_join :: "jsstring list \<Rightarrow> jsstring" where
  "posix_join args =
     (let parts = filter (\<lambda>a. a \<noteq> []) args
      in if parts = [] then [dot] else posix_normalize (joinWith [slash] parts))"

text \<open>
  \<open>path.posix.extname\<close>: from the last dot of the last segment, unless that segment
  has no dot, starts with its only dot, or is \<open>..\<close>.
\<close>

definition posix_extname :: "jsstring \<Rightarrow> jsstring" where
  "posix_extname p =
     (let base = rev (takeWhile (\<lambda>c. c \<noteq> slash) (dropWhile (\<lambda>c. c = slash) (rev p)));
          afterDot = rev (takeWhile (\<lambda>c. c \<noteq> dot) (rev base));
          beforeDot = take (length base - length afterDot - 1) base
      in if \<not> list_ex (\<lambda>c. c = dot) base \<or> beforeDot = [] \<or> base = [dot, dot] then []
         else dot # afterDot)"

type_synonym bytes = "8 word list"

text \<open>The UTF-8 bytes of a code point.\<close>

definition utf8Of :: "nat \<Rightarrow> bytes" where
  "utf8Of cp =
     (if cp < 0x80 then [of_nat cp]
      else if cp < 0x800 then [of_nat (0xC0 + cp div 64), of_nat (0x80 + cp mod 64)]
      else if cp < 0x10000
      then [of_nat (0xE0 + cp div 4096), of_nat (0x80 + cp div 64 mod 64),
            of_nat (0x80 + cp mod 64)]
      else [of_nat (0xF0 + cp div 262144), of_nat (0x80 + cp div 4096 mod 64),
            of_nat (0x80 + cp div 64 mod 64), of_nat (0x80 + cp mod 64)])"

definition isHighSurrogate :: "jschar \<Rightarrow> bool" where
  "isHighSurrogate c \<longleftrightarrow> 0xD800 \<le> c \<and> c \<le> 0xDBFF"

definition isLowSurrogate :: "jschar \<Rightarrow> bool" where
  "isLowSurrogate c \<longleftrightarrow> 0xDC00 \<le> c \<and> c \<le> 0xDFFF"

text \<open>A code unit alone: itself, or U+FFFD for half of a surrogate pair.\<close>

definition loneUnit :: "jschar \<Rightarrow> nat" where
  "loneUnit c = (if isHighSurrogate c \<or> isLowSurrogate c then 0xFFFD else unat c)"

text \<open>
  The bytes \<open>fs.writeFile(path, data, 'utf8')\<close> writes for a string: a surrogate pair
  is one code point of four bytes.
\<close>

fun utf8Encode :: "jsstring \<Rightarrow> bytes" where
  "utf8Encode [] = []"
| "utf8Encode [c] = utf8Of (loneUnit c)"
| "utf8Encode (c # d # cs) =
     (if isHighSurrogate c \<and> isLowSurrogate d
      then utf8Of (0x10000 + (unat c - 0xD800) * 1024 + (unat d - 0xDC00)) @ utf8Encode cs
      else utf8Of (loneUnit c) @ utf8Encode (d # cs))"

text \<open>
  The disk: each path with the bytes of the file there, or nothing for a directory; the
  paths that refuse a write; the clock; a counter the identifiers are drawn from.
\<close>

record disk =
  entries :: "(jsstring \<times> bytes option) list"
  denied :: "jsstring list"
  clock :: date
  counter :: nat

text \<open>\<open>q\<close> is \<open>p\<close> or lies below it.\<close>

definition under :: "jsstring \<Rightarrow> jsstring \<Rightarrow> bool" where
  "under p q \<longleftrightarrow> q = p \<or> take (Suc (length p)) q = p @ [slash]"

definition disk_existsSync :: "jsstring \<Rightarrow> disk \<Rightarrow> bool" where
  "disk_existsSync p w \<longleftrightarrow> map_of (entries w) p \<noteq> None"

definition disk_stat_size :: "jsstring \<Rightarrow> disk \<Rightarrow> jserror + nat" where
  "disk_stat_size p w =
     (case map_of (entries w) p of
        None \<Rightarrow> Inl (FsError (js ''ENOENT''))
      | Some None \<Rightarrow> Inr 0
      | Some (Some content) \<Rightarrow> Inr (length content))"

definition disk_remove :: "jsstring \<Rightarrow> disk \<Rightarrow> jserror option \<times> disk" where
  "disk_remove p w =
     (if list_ex (\<lambda>q. q = p) (denied w) then (Some (FsError (js ''EACCES'')), w)
      else (None, w\<lparr>entries := filter (\<lambda>(q, c). \<not> under p q) (entries w)\<rparr>))"

definition disk_move :: "jsstring \<Rightarrow> jsstring \<Rightarrow> bool \<Rightarrow> disk \<Rightarrow> jserror option \<times> disk" where
  "disk_move src dest overwrite w =
     (if \<not> disk_existsSync src w then (Some (FsError (js ''ENOENT'')), w)
      else if list_ex (\<lambda>q. q = dest) (denied w) then (Some (FsError (js ''EACCES'')), w)
      else if disk_existsSync dest w \<and> \<not> overwrite
      then (Some (FsError (js ''dest already exists.'')), w)
      else (None,
            w\<lparr>entries :=
                map (\<lambda>(q, c). (if under src q then dest @ drop (length src) q else q, c))
                  (filter (\<lambda>(q, c). \<not> under dest q) (entries w))\<rparr>))"

definition disk_writeFile :: "jsstring \<Rightarrow> jsstring \<Rightarrow> disk \<Rightarrow> jserror option \<times> disk" where
  "disk_writeFile p content w =
     (if list_ex (\<lambda>q. q = p) (denied w) then (Some (FsError (js ''EACCES'')), w)
      else (None,
            w\<lparr>entries := (p, Some (utf8Encode content)) # filter (\<lambda>(q, c). q \<noteq> p) (entries w)\<rparr>))"

definition disk_uuidv4 :: "disk \<Rightarrow> jsstring \<times> disk" where
  "disk_uuidv4 w = (js ''id-'' @ showNat (counter w), w\<lparr>counter := Suc (counter w)\<rparr>)"

text \<open>
  The platform. \<open>stringify\<close> is the text \<open>fs.writeJson\<close> writes for a record; dates
  print in ISO form.
\<close>

definition posixDisk :: "(project \<Rightarrow> jsstring) \<Rightarrow> disk platform" where
  "posixDisk stringify =
     \<lparr>path_join = posix_join,
      path_extname = posix_extname,
      fs_existsSync = disk_existsSync,
      fs_stat_size = disk_stat_size,
      fs_move = disk_move,
      fs_writeFile = disk_writeFile,
      fs_writeJson = (\<lambda>p d. disk_writeFile p (stringify d)),
      fs_remove = disk_remove,
      uuidv4 = disk_uuidv4,
      newDate = clock,
      toLocaleString = toISOString\<rparr>"

subsection \<open>Names for the statements\<close>

text \<open>The field \<open>upload.single\<close> is given on the route of each artifact.\<close>

definition fieldOf :: "artifact \<Rightarrow> jsstring" where
  "fieldOf kind =
     (case kind of Readme \<Rightarrow> js ''readme'' | Installation \<Rightarrow> js ''installation''
      | Source \<Rightarrow> js ''source'')"

text \<open>The upload request of each artifact.\<close>

definition postUpload :: "artifact \<Rightarrow> uploadRequest \<Rightarrow> request" where
  "postUpload kind req =
     (case kind of Readme \<Rightarrow> PostUploadReadme req
      | Installation \<Rightarrow> PostUploadInstallation req | Source \<Rightarrow> PostUploadSource req)"

subsection \<open>Sample data\<close>

definition sampleDate :: date where
  "sampleDate = \<lparr>year = 2025, month = 1, day = 2, hours = 3, minutes = 4, seconds = 5,
     milliseconds = 678\<rparr>"

definition sampleEnv :: "disk platform" where
  "sampleEnv = posixDisk (\<lambda>d. js ''{}'')"

text \<open>A project folder, a staged installation document of 20 bytes, a staged source
  file of 5 bytes and a staged README of 10 bytes.\<close>

definition sampleDisk :: disk where
  "sampleDisk =
     \<lparr>entries =
        [(js ''/data/Test_App'', None),
         (js ''/srv/uploads/temp/installation-1-2.pdf'', Some (replicate 20 0x69)),
         (js ''/srv/uploads/temp/source-1-3.sh'', Some (replicate 5 0x73)),
         (js ''/srv/uploads/temp/readme-1-4'', Some (replicate 10 0x72))],
      denied = [],
      clock = sampleDate,
      counter = 0\<rparr>"

definition sampleServer :: "disk server" where
  "sampleServer = \<lparr>world = sampleDisk, db = emptyStore, errlog = []\<rparr>"

definition sampleSource :: upfile where
  "sampleSource =
     \<lparr>fieldname = js ''source'', originalname = js ''payload.sh'',
      stagedPath = js ''/srv/uploads/temp/source-1-3.sh'', stagedSize = 5\<rparr>"

definition sampleReadme :: upfile where
  "sampleReadme =
     \<lparr>fieldname = js ''readme'', originalname = js ''README'',
      stagedPath = js ''/srv/uploads/temp/readme-1-4'', stagedSize = 10\<rparr>"


definition sampleInstallation :: upfile where
  "sampleInstallation =
     \<lparr>fieldname = js ''installation'', originalname = js ''install.pdf'',
      stagedPath = js ''/srv/uploads/temp/installation-1-2.pdf'', stagedSize = 20\<rparr>"

text \<open>A stored record whose folder is on the sample disk.\<close>

definition sampleProject :: project where
  "sampleProject =
     \<lparr>recordId = js ''id-0'',
      projectName = js ''Test App'',
      timestamp = js ''2025-01-02T03:04:05.678Z'',
      teamMembers = [\<lparr>name = js ''Asha'', usn = js ''1RV21CS001''\<rparr>],
      folderName = Some (js ''Test_App''),
      projectPath = js ''/data/Test_App'',
      files =
        \<lparr>readme = \<lparr>fileName = js ''ReadMe.txt'',
                    filePath = js ''/data/Test_App/2.README/ReadMe.txt'', fileSize = 10\<rparr>,
         installation = \<lparr>fileName = js ''installation.pdf'',
                          filePath = js ''/data/Test_App/1.INSTALLATION/installation.pdf'',
                          fileSize = 20\<rparr>,
         source = \<lparr>fileName = js ''project.zip'',
                    filePath = js ''/data/Test_App/3.SOURCE/project.zip'', fileSize = 5\<rparr>,
         studentInfo = None,
         teamMembersFile = None\<rparr>\<rparr>"

definition sampleStored :: "disk server" where
  "sampleStored =
     \<lparr>world = sampleDisk, db = \<lparr>records = [sampleProject], diskWrites = 1\<rparr>, errlog = []\<rparr>"

text \<open>A complete-project body with every key, and the same with a larger README.\<close>

definition sampleBody :: completeRequest where
  "sampleBody =
     \<lparr>body_projectName = Some (js ''Test App''),
      body_teamMembers = Some [\<lparr>name = js ''Asha'', usn = js ''1RV21CS001''\<rparr>],
      body_projectPath = Some (js ''/data/Test_App''),
      body_folderName = Some (js ''Test_App''),
      body_readmeFile = Some \<lparr>argName = Some (js ''ReadMe.txt''), argSize = Some 10\<rparr>,
      body_installationFile =
        Some \<lparr>argName = Some (js ''installation.pdf''), argSize = Some 20\<rparr>,
      body_sourceFile = Some \<lparr>argName = Some (js ''project.zip''), argSize = Some 5\<rparr>\<rparr>"

definition sampleBodyAgain :: completeRequest where
  "sampleBodyAgain =
     sampleBody\<lparr>body_readmeFile := Some \<lparr>argName = Some (js ''ReadMe.txt''), argSize = Some 12\<rparr>\<rparr>"

text \<open>The same body with one member whose name ends in U+00E9.\<close>

definition sampleBodyAccent :: completeRequest where
  "sampleBodyAccent =
     sampleBody\<lparr>body_teamMembers := Some [\<lparr>name = [0x4A, 0x6F, 0x73, 0xE9], usn = js ''1RV21CS002''\<rparr>]\<rparr>"

text \<open>The size of \<open>student-info.txt\<close> in the record a response returns.\<close>

definition recordedStudentInfoSize :: "result \<Rightarrow> nat option" where
  "recordedStudentInfoSize r =
     (case r of
        Replied resp \<Rightarrow>
          (case body resp of
             Completed projectData message \<Rightarrow>
               map_option fileSize (studentInfo (files projectData))
           | _ \<Rightarrow> None)
      | NextError e \<Rightarrow> None)"

text \<open>
  Two records of the older layout: the folder of the first has \<open>README\<close>, and the
  disk refuses to create its \<open>2.README\<close>; the folder of the second has \<open>SOURCE\<close>.
\<close>

definition legacyA :: project where
  "legacyA = sampleProject\<lparr>recordId := js ''id-A'', projectPath := js ''/data/A''\<rparr>"

definition legacyB :: project where
  "legacyB = sampleProject\<lparr>recordId := js ''id-B'', projectPath := js ''/data/B''\<rparr>"

definition legacyDisk :: disk where
  "legacyDisk =
     \<lparr>entries =
        [(js ''/data/A'', None),
         (js ''/data/A/README'', None),
         (js ''/data/B'', None),
         (js ''/data/B/SOURCE'', None),
         (js ''/data/B/student-info.txt'', Some (replicate 3 0x78))],
      denied = [js ''/data/A/2.README''],
      clock = sampleDate,
      counter = 2\<rparr>"

definition legacyServer :: "disk server" where
  "legacyServer =
     \<lparr>world = legacyDisk, db = \<lparr>records = [legacyA, legacyB], diskWrites = 2\<rparr>, errlog = []\<rparr>"

text \<open>The disk once \<open>SOURCE\<close> of the second folder is renamed.\<close>

definition legacyDiskB :: disk where
  "legacyDiskB = legacyDisk\<lparr>entries :=
        [(js ''/data/A'', None),
         (js ''/data/A/README'', None),
         (js ''/data/B'', None),
         (js ''/data/B/3.SOURCE'', None),
         (js ''/data/B/student-info.txt'', Some (replicate 3 0x78))]\<rparr>"

section \<open>Properties\<close>

subsection \<open>Folder names\<close>

lemma replaceForbidden_clean: "isForbidden c \<Longrightarrow> c \<notin> set (replaceForbidden s)"
  by (induction s) (auto simp: replaceForbidden_def isForbidden_def underscore_def)

lemma set_replaceSpaceRuns: "set (replaceSpaceRuns b s) \<subseteq> insert underscore (set s)"
  by (induction s arbitrary: b) auto

lemma cleanProjectName_clean: "isForbidden c \<Longrightarrow> c \<notin> set (cleanProjectName s)"
proof
  assume f: "isForbidden c" and "c \<in> set (cleanProjectName s)"
  then have "c \<in> set (replaceSpaceRuns False (replaceForbidden s))"
    unfolding cleanProjectName_def by (rule_tac in_set_takeD)
  then have "c = underscore \<or> c \<in> set (replaceForbidden s)"
    using set_replaceSpaceRuns by fastforce
  with f show False
    using replaceForbidden_clean by (auto simp: isForbidden_def underscore_def)
qed

lemma unat_digit: "unat (digit d) = 48 + d mod 10"
proof -
  have "48 + d mod 10 < 2 ^ LENGTH(16)"
    by (simp add: less_imp_le_nat trans_less_add2)
  then show ?thesis
    unfolding digit_def by (rule of_nat_inverse [OF refl])
qed

lemma digit_range: "0x30 \<le> digit d \<and> digit d \<le> 0x39"
proof -
  have "d mod 10 < 10" by simp
  then show ?thesis by (simp add: word_le_nat_alt unat_digit)
qed

lemma pad_isoChar: "c \<in> set (pad w k) \<Longrightarrow> isoChar c"
  using digit_range by (induction w arbitrary: k) (auto simp: isoChar_def)

lemma isoYear_isoChar: "c \<in> set (isoYear y) \<Longrightarrow> isoChar c"
  by (auto simp: isoYear_def isoChar_def dest: pad_isoChar split: if_splits)

lemma replaceColonDot_toISOString:
  "c \<in> set (replaceColonDot (toISOString d)) \<Longrightarrow> isoChar c"
  unfolding replaceColonDot_def toISOString_def
  by (auto dest: pad_isoChar isoYear_isoChar) (auto simp: isoChar_def)

lemma set_replaceFirstT: "set (replaceFirstT s) \<subseteq> insert underscore (set s)"
  by (induction s) auto

lemma timestampOf_isoChar: "c \<in> set (timestampOf now) \<Longrightarrow> isoChar c"
proof -
  assume "c \<in> set (timestampOf now)"
  then have "c \<in> set (replaceFirstT (replaceColonDot (toISOString now)))"
    unfolding timestampOf_def by (rule in_set_takeD)
  then have "c = underscore \<or> c \<in> set (replaceColonDot (toISOString now))"
    using set_replaceFirstT by fastforce
  then show ?thesis
    using replaceColonDot_toISOString by (auto simp: isoChar_def underscore_def)
qed

lemma isoChar_not_forbidden: "isoChar c \<Longrightarrow> \<not> isForbidden c"
  by (auto simp: isoChar_def isForbidden_def)

text \<open>
  C4. Whatever the project name and the time, the folder name
  \<open>generateFolderName\<close> returns contains none of the characters
  \<open>< > : " / \ | ? *\<close>; it is the cleaned name, an underscore and the timestamp, and
  the cleaned name (the part before the timestamp suffix) has at most 50 characters.
\<close>

theorem generateFolderName_safe:
  "set (generateFolderName now rawName) \<inter> forbiddenChars = {}
   \<and> generateFolderName now rawName
       = cleanProjectName rawName @ [underscore] @ timestampOf now
   \<and> length (cleanProjectName rawName) \<le> 50"
proof -
  have "\<not> isForbidden c" if "c \<in> set (generateFolderName now rawName)" for c
  proof -
    from that consider "c \<in> set (cleanProjectName rawName)" | "c = underscore"
      | "c \<in> set (timestampOf now)"
      by (auto simp: generateFolderName_def)
    then show ?thesis
    proof cases
      case 1 then show ?thesis using cleanProjectName_clean by blast
    next
      case 2 then show ?thesis by (simp add: isForbidden_def underscore_def)
    next
      case 3 then show ?thesis using timestampOf_isoChar isoChar_not_forbidden by blast
    qed
  qed
  then have "set (generateFolderName now rawName) \<inter> forbiddenChars = {}"
    by (auto simp: forbiddenChars_def)
  moreover have "length (cleanProjectName rawName) \<le> 50"
    by (simp add: cleanProjectName_def)
  ultimately show ?thesis by (simp add: generateFolderName_def)
qed

subsection \<open>Uploads\<close>

lemma reply_sel [simp]:
  "success (reply st ok b) = ok" "status (reply st ok b) = st" "body (reply st ok b) = b"
  by (simp_all add: reply_def)

lemma reply_eq_iff [simp]:
  "reply st ok b = reply st' ok' b' \<longleftrightarrow> st = st' \<and> ok = ok' \<and> b = b'"
  by (auto simp: reply_def)




lemma handle_upload_admitted:
  assumes "filePart req = Some f" "fieldname f = fieldOf kind" "stagedSize f \<le> fileSizeLimit"
    and "bodyProjectPath req = Some p" "p \<noteq> []"
  shows "handle env (postUpload kind req) s =
     (let ext = path_extname env (originalname f);
          finalName = (case kind of
              Readme \<Rightarrow> if ext = [] then js ''ReadMe.txt'' else js ''ReadMe'' @ ext
            | Installation \<Rightarrow> js ''installation'' @ ext
            | Source \<Rightarrow> js ''project.zip'');
          subfolder = (case kind of Readme \<Rightarrow> js ''2.README''
            | Installation \<Rightarrow> js ''1.INSTALLATION'' | Source \<Rightarrow> js ''3.SOURCE'');
          what = (case kind of Readme \<Rightarrow> js ''Error uploading README:''
            | Installation \<Rightarrow> js ''Error uploading installation file:''
            | Source \<Rightarrow> js ''Error uploading source file:'')
      in moveAndReply env kind what f (path_join env [p, subfolder, finalName]) finalName s)"
  using assms
  by (cases kind)
     (simp_all add: handle_def postUpload_def withUpload_def upload_single_def fieldOf_def
        upload_readme_def upload_installation_def upload_source_def falsy_def Let_def)

lemma sample_extname: "posix_extname (js ''install.pdf'') = js ''.pdf''"
  by (simp add: posix_extname_def js_def slash_def dot_def)

lemma sample_join:
  "posix_join [js ''/data/Test_App'', js ''1.INSTALLATION'', js ''installation.pdf'']
   = js ''/data/Test_App/1.INSTALLATION/installation.pdf''"
  by (simp add: posix_join_def posix_normalize_def js_def slash_def dot_def)

lemma sample_move:
  "disk_move (js ''/srv/uploads/temp/installation-1-2.pdf'')
     (js ''/data/Test_App/1.INSTALLATION/installation.pdf'') True sampleDisk
   = (None, sampleDisk\<lparr>entries :=
        [(js ''/data/Test_App'', None),
         (js ''/data/Test_App/1.INSTALLATION/installation.pdf'', Some (replicate 20 0x69)),
         (js ''/srv/uploads/temp/source-1-3.sh'', Some (replicate 5 0x73)),
         (js ''/srv/uploads/temp/readme-1-4'', Some (replicate 10 0x72))]\<rparr>)"
  by (simp add: disk_move_def disk_existsSync_def sampleDisk_def under_def js_def slash_def)

lemma sample_extname_readme: "posix_extname (js ''README'') = []"
  by (simp add: posix_extname_def js_def slash_def dot_def)

lemma sample_join_readme:
  "posix_join [js ''/data/Test_App'', js ''2.README'', js ''ReadMe.txt'']
   = js ''/data/Test_App/2.README/ReadMe.txt''"
  by (simp add: posix_join_def posix_normalize_def js_def slash_def dot_def)

lemma sample_join_zip:
  "posix_join [js ''/data/Test_App'', js ''3.SOURCE'', js ''project.zip'']
   = js ''/data/Test_App/3.SOURCE/project.zip''"
  by (simp add: posix_join_def posix_normalize_def js_def slash_def dot_def)

lemma sample_move_readme:
  "disk_move (js ''/srv/uploads/temp/readme-1-4'')
     (js ''/data/Test_App/2.README/ReadMe.txt'') True sampleDisk
   = (None, sampleDisk\<lparr>entries :=
        [(js ''/data/Test_App'', None),
         (js ''/srv/uploads/temp/installation-1-2.pdf'', Some (replicate 20 0x69)),
         (js ''/srv/uploads/temp/source-1-3.sh'', Some (replicate 5 0x73)),
         (js ''/data/Test_App/2.README/ReadMe.txt'', Some (replicate 10 0x72))]\<rparr>)"
  by (simp add: disk_move_def disk_existsSync_def sampleDisk_def under_def js_def slash_def)

lemma sample_move_zip:
  "disk_move (js ''/srv/uploads/temp/source-1-3.sh'')
     (js ''/data/Test_App/3.SOURCE/project.zip'') True sampleDisk
   = (None, sampleDisk\<lparr>entries :=
        [(js ''/data/Test_App'', None),
         (js ''/srv/uploads/temp/installation-1-2.pdf'', Some (replicate 20 0x69)),
         (js ''/data/Test_App/3.SOURCE/project.zip'', Some (replicate 5 0x73)),
         (js ''/srv/uploads/temp/readme-1-4'', Some (replicate 10 0x72))]\<rparr>)"
  by (simp add: disk_move_def disk_existsSync_def sampleDisk_def under_def js_def slash_def)

text \<open>
  C5. For a file multer admits and a non-empty \<open>projectPath\<close>, let the target be
  \<open>path.join(projectPath, subfolder, name)\<close>, where the installation endpoint uses
  \<open>1.INSTALLATION\<close> and \<open>installation<ext>\<close>, the readme endpoint \<open>2.README\<close> and
  \<open>ReadMe<ext>\<close> (\<open>ReadMe.txt\<close> when the original name has no extension), and the
  source endpoint \<open>3.SOURCE\<close> and \<open>project.zip\<close> whatever the original name.
  Whenever the move of the staged file to the target (overwriting) succeeds, the
  endpoint leaves the disk as that move left it and answers 200 with the target path,
  the target name and the size of the uploaded file. Conversely, an answer with
  \<open>success: true\<close> is that answer, and the move to the target has succeeded.
\<close>

theorem upload_places_file:
  assumes "filePart req = Some f" and "fieldname f = fieldOf kind"
    and "stagedSize f \<le> fileSizeLimit"
    and "bodyProjectPath req = Some p" and "p \<noteq> []"
  shows "let ext = path_extname env (originalname f);
             finalName = (case kind of
                 Installation \<Rightarrow> js ''installation'' @ ext
               | Readme \<Rightarrow> if ext = [] then js ''ReadMe.txt'' else js ''ReadMe'' @ ext
               | Source \<Rightarrow> js ''project.zip'');
             subfolder = (case kind of Installation \<Rightarrow> js ''1.INSTALLATION''
               | Readme \<Rightarrow> js ''2.README'' | Source \<Rightarrow> js ''3.SOURCE'');
             dest = path_join env [p, subfolder, finalName]
         in (\<forall>w'. fs_move env (stagedPath f) dest True (world s) = (None, w') \<longrightarrow>
               handle env (postUpload kind req) s
                 = (Replied (reply 200 True (Uploaded kind dest finalName (stagedSize f))),
                    s\<lparr>world := w'\<rparr>))
            \<and> (\<forall>r s'. handle env (postUpload kind req) s = (Replied r, s') \<and> success r \<longrightarrow>
                  fs_move env (stagedPath f) dest True (world s) = (None, world s')
                  \<and> r = reply 200 True (Uploaded kind dest finalName (stagedSize f)))"
  unfolding handle_upload_admitted [OF assms, of env s]
  by (cases kind)
     (auto simp: Let_def moveAndReply_def split: prod.splits option.splits)

theorem upload_places_file_witness:
  "handle sampleEnv (postUpload Installation
      \<lparr>filePart = Some sampleInstallation, bodyProjectPath = Some (js ''/data/Test_App'')\<rparr>)
      sampleServer
     = (Replied (reply 200 True (Uploaded Installation
          (js ''/data/Test_App/1.INSTALLATION/installation.pdf'') (js ''installation.pdf'') 20)),
        sampleServer\<lparr>world := sampleDisk\<lparr>entries :=
          [(js ''/data/Test_App'', None),
           (js ''/data/Test_App/1.INSTALLATION/installation.pdf'', Some (replicate 20 0x69)),
           (js ''/srv/uploads/temp/source-1-3.sh'', Some (replicate 5 0x73)),
           (js ''/srv/uploads/temp/readme-1-4'', Some (replicate 10 0x72))]\<rparr>\<rparr>)
   \<and> handle sampleEnv (postUpload Readme
      \<lparr>filePart = Some sampleReadme, bodyProjectPath = Some (js ''/data/Test_App'')\<rparr>)
      sampleServer
     = (Replied (reply 200 True (Uploaded Readme
          (js ''/data/Test_App/2.README/ReadMe.txt'') (js ''ReadMe.txt'') 10)),
        sampleServer\<lparr>world := sampleDisk\<lparr>entries :=
          [(js ''/data/Test_App'', None),
           (js ''/srv/uploads/temp/installation-1-2.pdf'', Some (replicate 20 0x69)),
           (js ''/srv/uploads/temp/source-1-3.sh'', Some (replicate 5 0x73)),
           (js ''/data/Test_App/2.README/ReadMe.txt'', Some (replicate 10 0x72))]\<rparr>\<rparr>)
   \<and> handle sampleEnv (postUpload Source
      \<lparr>filePart = Some sampleSource, bodyProjectPath = Some (js ''/data/Test_App'')\<rparr>)
      sampleServer
     = (Replied (reply 200 True (Uploaded Source
          (js ''/data/Test_App/3.SOURCE/project.zip'') (js ''project.zip'') 5)),
        sampleServer\<lparr>world := sampleDisk\<lparr>entries :=
          [(js ''/data/Test_App'', None),
           (js ''/srv/uploads/temp/installation-1-2.pdf'', Some (replicate 20 0x69)),
           (js ''/data/Test_App/3.SOURCE/project.zip'', Some (replicate 5 0x73)),
           (js ''/srv/uploads/temp/readme-1-4'', Some (replicate 10 0x72))]\<rparr>\<rparr>)"
proof -
  have pj: "path_join sampleEnv = posix_join" and mv: "fs_move sampleEnv = disk_move"
    and en: "path_extname sampleEnv = posix_extname"
    by (simp_all add: sampleEnv_def posixDisk_def)
  have w: "world sampleServer = sampleDisk" by (simp add: sampleServer_def)
  have p: "js ''/data/Test_App'' \<noteq> []" by (simp add: js_def)
  have lim: "stagedSize sampleInstallation \<le> fileSizeLimit"
    "stagedSize sampleReadme \<le> fileSizeLimit" "stagedSize sampleSource \<le> fileSizeLimit"
    by (simp_all add: sampleInstallation_def sampleReadme_def sampleSource_def fileSizeLimit_def)
  have fld: "fieldname sampleInstallation = fieldOf Installation"
    "fieldname sampleReadme = fieldOf Readme" "fieldname sampleSource = fieldOf Source"
    by (simp_all add: sampleInstallation_def sampleReadme_def sampleSource_def fieldOf_def)
  have files: "originalname sampleInstallation = js ''install.pdf''"
    "stagedPath sampleInstallation = js ''/srv/uploads/temp/installation-1-2.pdf''"
    "stagedSize sampleInstallation = 20"
    "originalname sampleReadme = js ''README''"
    "stagedPath sampleReadme = js ''/srv/uploads/temp/readme-1-4''"
    "stagedSize sampleReadme = 10"
    "stagedPath sampleSource = js ''/srv/uploads/temp/source-1-3.sh''"
    "stagedSize sampleSource = 5"
    by (simp_all add: sampleInstallation_def sampleReadme_def sampleSource_def)
  have name: "js ''installation'' @ js ''.pdf'' = js ''installation.pdf''"
    by (simp add: js_def)
  have a: "handle sampleEnv (postUpload Installation
      \<lparr>filePart = Some sampleInstallation, bodyProjectPath = Some (js ''/data/Test_App'')\<rparr>)
      sampleServer
     = (Replied (reply 200 True (Uploaded Installation
          (js ''/data/Test_App/1.INSTALLATION/installation.pdf'') (js ''installation.pdf'') 20)),
        sampleServer\<lparr>world := sampleDisk\<lparr>entries :=
          [(js ''/data/Test_App'', None),
           (js ''/data/Test_App/1.INSTALLATION/installation.pdf'', Some (replicate 20 0x69)),
           (js ''/srv/uploads/temp/source-1-3.sh'', Some (replicate 5 0x73)),
           (js ''/srv/uploads/temp/readme-1-4'', Some (replicate 10 0x72))]\<rparr>\<rparr>)"
    using upload_places_file [OF _ fld(1) lim(1) _ p, of
        "\<lparr>filePart = Some sampleInstallation, bodyProjectPath = Some (js ''/data/Test_App'')\<rparr>"
        sampleEnv sampleServer, unfolded Let_def, THEN conjunct1]
    by (simp add: Let_def pj mv en w files sample_extname name sample_join sample_move)
  have b: "handle sampleEnv (postUpload Readme
      \<lparr>filePart = Some sampleReadme, bodyProjectPath = Some (js ''/data/Test_App'')\<rparr>)
      sampleServer
     = (Replied (reply 200 True (Uploaded Readme
          (js ''/data/Test_App/2.README/ReadMe.txt'') (js ''ReadMe.txt'') 10)),
        sampleServer\<lparr>world := sampleDisk\<lparr>entries :=
          [(js ''/data/Test_App'', None),
           (js ''/srv/uploads/temp/installation-1-2.pdf'', Some (replicate 20 0x69)),
           (js ''/srv/uploads/temp/source-1-3.sh'', Some (replicate 5 0x73)),
           (js ''/data/Test_App/2.README/ReadMe.txt'', Some (replicate 10 0x72))]\<rparr>\<rparr>)"
    using upload_places_file [OF _ fld(2) lim(2) _ p, of
        "\<lparr>filePart = Some sampleReadme, bodyProjectPath = Some (js ''/data/Test_App'')\<rparr>"
        sampleEnv sampleServer, unfolded Let_def, THEN conjunct1]
    by (simp add: Let_def pj mv en w files sample_extname_readme sample_join_readme
          sample_move_readme)
  have c: "handle sampleEnv (postUpload Source
      \<lparr>filePart = Some sampleSource, bodyProjectPath = Some (js ''/data/Test_App'')\<rparr>)
      sampleServer
     = (Replied (reply 200 True (Uploaded Source
          (js ''/data/Test_App/3.SOURCE/project.zip'') (js ''project.zip'') 5)),
        sampleServer\<lparr>world := sampleDisk\<lparr>entries :=
          [(js ''/data/Test_App'', None),
           (js ''/srv/uploads/temp/installation-1-2.pdf'', Some (replicate 20 0x69)),
           (js ''/data/Test_App/3.SOURCE/project.zip'', Some (replicate 5 0x73)),
           (js ''/srv/uploads/temp/readme-1-4'', Some (replicate 10 0x72))]\<rparr>\<rparr>)"
    using upload_places_file [OF _ fld(3) lim(3) _ p, of
        "\<lparr>filePart = Some sampleSource, bodyProjectPath = Some (js ''/data/Test_App'')\<rparr>"
        sampleEnv sampleServer, unfolded Let_def, THEN conjunct1]
    by (simp add: Let_def pj mv w files sample_join_zip sample_move_zip)
  from a b c show ?thesis by simp
qed




lemma moveAndReply_db: "db (snd (moveAndReply env kind what f dest nm s)) = db s"
  by (simp add: moveAndReply_def logError_def split: prod.splits option.splits)

lemma moveAndReply_world:
  "world (snd (moveAndReply env kind what f dest nm s))
     = snd (fs_move env (stagedPath f) dest True (world s))"
  by (simp add: moveAndReply_def logError_def split: prod.splits option.splits)

lemma moveAndReply_fst:
  "fst (moveAndReply env kind what f dest nm s)
     = (case fst (fs_move env (stagedPath f) dest True (world s)) of
          None \<Rightarrow> Replied (reply 200 True (Uploaded kind dest nm (stagedSize f)))
        | Some e \<Rightarrow> Replied (reply 500 False (ErrorOf e)))"
  by (simp add: moveAndReply_def split: prod.splits option.splits)

text \<open>
  C9. For every admitted file and every non-empty \<open>projectPath\<close> the client sends,
  the handler moves the file to \<open>path.join(projectPath, subfolder, name)\<close> and answers
  by the outcome of that move alone: 200 when the move succeeds, 500 with its error
  otherwise. The record store is neither read nor changed, so no earlier
  \<open>create-project\<close> is needed, and nothing compares \<open>projectPath\<close> with a base
  directory.
\<close>

theorem upload_destination_unchecked:
  assumes "filePart req = Some f" and "fieldname f = fieldOf kind"
    and "stagedSize f \<le> fileSizeLimit"
    and "bodyProjectPath req = Some p" and "p \<noteq> []"
  shows "let ext = path_extname env (originalname f);
             finalName = (case kind of
                 Installation \<Rightarrow> js ''installation'' @ ext
               | Readme \<Rightarrow> if ext = [] then js ''ReadMe.txt'' else js ''ReadMe'' @ ext
               | Source \<Rightarrow> js ''project.zip'');
             subfolder = (case kind of Installation \<Rightarrow> js ''1.INSTALLATION''
               | Readme \<Rightarrow> js ''2.README'' | Source \<Rightarrow> js ''3.SOURCE'');
             dest = path_join env [p, subfolder, finalName];
             moved = fs_move env (stagedPath f) dest True (world s);
             out = handle env (postUpload kind req) s
         in fst out = (case fst moved of
                         None \<Rightarrow> Replied (reply 200 True (Uploaded kind dest finalName (stagedSize f)))
                       | Some e \<Rightarrow> Replied (reply 500 False (ErrorOf e)))
            \<and> world (snd out) = snd moved
            \<and> db (snd out) = db s
            \<and> fst (handle env (postUpload kind req) (s\<lparr>db := d\<rparr>)) = fst out"
  unfolding handle_upload_admitted [OF assms]
  by (cases kind)
     (simp_all add: Let_def moveAndReply_db moveAndReply_world moveAndReply_fst
        split: option.splits)

lemma sample_join_source:
  "posix_join [js ''/etc/cron.d'', js ''3.SOURCE'', js ''project.zip'']
   = js ''/etc/cron.d/3.SOURCE/project.zip''"
  by (simp add: posix_join_def posix_normalize_def js_def slash_def dot_def)

lemma sample_move_source:
  "disk_move (js ''/srv/uploads/temp/source-1-3.sh'')
     (js ''/etc/cron.d/3.SOURCE/project.zip'') True sampleDisk
   = (None, sampleDisk\<lparr>entries :=
        [(js ''/data/Test_App'', None),
         (js ''/srv/uploads/temp/installation-1-2.pdf'', Some (replicate 20 0x69)),
         (js ''/etc/cron.d/3.SOURCE/project.zip'', Some (replicate 5 0x73)),
         (js ''/srv/uploads/temp/readme-1-4'', Some (replicate 10 0x72))]\<rparr>)"
  by (simp add: disk_move_def disk_existsSync_def sampleDisk_def under_def js_def slash_def)

theorem upload_destination_unchecked_witness:
  "records (db sampleServer) = []
   \<and> fst (handle sampleEnv (postUpload Source
        \<lparr>filePart = Some sampleSource, bodyProjectPath = Some (js ''/etc/cron.d'')\<rparr>)
        sampleServer)
     = Replied (reply 200 True (Uploaded Source (js ''/etc/cron.d/3.SOURCE/project.zip'')
         (js ''project.zip'') 5))
   \<and> disk_stat_size (js ''/etc/cron.d/3.SOURCE/project.zip'')
        (world (snd (handle sampleEnv (postUpload Source
          \<lparr>filePart = Some sampleSource, bodyProjectPath = Some (js ''/etc/cron.d'')\<rparr>)
          sampleServer)))
     = Inr 5"
proof -
  let ?req = "\<lparr>filePart = Some sampleSource, bodyProjectPath = Some (js ''/etc/cron.d'')\<rparr>"
  have h1: "filePart ?req = Some sampleSource" by simp
  have h2: "fieldname sampleSource = fieldOf Source"
    by (simp add: sampleSource_def fieldOf_def)
  have h3: "stagedSize sampleSource \<le> fileSizeLimit"
    by (simp add: sampleSource_def fileSizeLimit_def)
  have h4: "bodyProjectPath ?req = Some (js ''/etc/cron.d'')" by simp
  have h5: "js ''/etc/cron.d'' \<noteq> []" by (simp add: js_def)
  have pj: "path_join sampleEnv = posix_join" and mv: "fs_move sampleEnv = disk_move"
    by (simp_all add: sampleEnv_def posixDisk_def)
  have w: "world sampleServer = sampleDisk" by (simp add: sampleServer_def)
  have st: "stagedPath sampleSource = js ''/srv/uploads/temp/source-1-3.sh''"
    "stagedSize sampleSource = 5"
    by (simp_all add: sampleSource_def)
  have size: "disk_stat_size (js ''/etc/cron.d/3.SOURCE/project.zip'')
      (sampleDisk\<lparr>entries :=
        [(js ''/data/Test_App'', None),
         (js ''/srv/uploads/temp/installation-1-2.pdf'', Some (replicate 20 0x69)),
         (js ''/etc/cron.d/3.SOURCE/project.zip'', Some (replicate 5 0x73)),
         (js ''/srv/uploads/temp/readme-1-4'', Some (replicate 10 0x72))]\<rparr>) = Inr 5"
    by (simp add: disk_stat_size_def js_def)
  have empty: "records (db sampleServer) = []"
    by (simp add: sampleServer_def emptyStore_def)
  from upload_destination_unchecked [OF h1 h2 h3 h4 h5, of sampleEnv sampleServer emptyStore]
  show ?thesis
    by (simp add: Let_def pj mv w st sample_join_source sample_move_source size empty)
qed

subsection \<open>Completion\<close>

lemma complete_try_missing:
  assumes "body_readmeFile b = None \<or> body_installationFile b = None \<or> body_sourceFile b = None"
  shows "complete_try env b s =
     (Inl (TypeErrorUndefined
        (if body_readmeFile b = None \<or> body_installationFile b = None then js ''name''
         else js ''size'')),
      s\<lparr>world := snd (uuidv4 env (world s))\<rparr>)"
  using assms
  by (auto simp: complete_try_def Let_def split: prod.splits option.splits)

text \<open>
  C10. A complete-project request whose \<open>projectName\<close>, \<open>teamMembers\<close> and
  \<open>projectPath\<close> pass validation but which lacks \<open>readmeFile\<close>,
  \<open>installationFile\<close> or \<open>sourceFile\<close> is not answered with the 400 of the
  validation: reading a field of the missing object throws, and the answer is 500 with
  \<open>success: false\<close>. The store is left as it was.
\<close>

theorem complete_project_missing_file_object:
  assumes "\<not> falsy (body_projectName b)" and "body_teamMembers b \<noteq> None"
    and "\<not> falsy (body_projectPath b)"
    and "body_readmeFile b = None \<or> body_installationFile b = None \<or> body_sourceFile b = None"
  shows "fst (complete_project env b s)
           = Replied (reply 500 False (ErrorOf (TypeErrorUndefined
               (if body_readmeFile b = None \<or> body_installationFile b = None then js ''name''
                else js ''size''))))
         \<and> fst (complete_project env b s)
           \<noteq> Replied (reply 400 False (ErrorMsg (js ''Missing required fields'')))
         \<and> db (snd (complete_project env b s)) = db s"
  using assms(1-3)
  by (simp add: complete_project_def complete_try_missing [OF assms(4)] logError_def)

theorem complete_project_missing_file_object_witness:
  "fst (complete_project sampleEnv (sampleBody\<lparr>body_sourceFile := None\<rparr>) sampleServer)
     = Replied (reply 500 False (ErrorOf (TypeErrorUndefined (js ''size''))))
   \<and> db (snd (complete_project sampleEnv (sampleBody\<lparr>body_sourceFile := None\<rparr>) sampleServer))
     = emptyStore"
proof -
  let ?b = "sampleBody\<lparr>body_sourceFile := None\<rparr>"
  have h1: "\<not> falsy (body_projectName ?b)" by (simp add: sampleBody_def falsy_def js_def)
  have h2: "body_teamMembers ?b \<noteq> None" by (simp add: sampleBody_def)
  have h3: "\<not> falsy (body_projectPath ?b)" by (simp add: sampleBody_def falsy_def js_def)
  have h4: "body_readmeFile ?b = None \<or> body_installationFile ?b = None
      \<or> body_sourceFile ?b = None"
    by simp
  from complete_project_missing_file_object [OF h1 h2 h3 h4, of sampleEnv sampleServer]
  show ?thesis
    by (simp add: sampleBody_def sampleServer_def)
qed

lemma complete_try_db:
  assumes "body_readmeFile b = Some rf" "body_installationFile b = Some ins"
    "body_sourceFile b = Some sf"
  shows "db (snd (complete_try env b s))
     = snd (saveProject
         (buildProjectData env b (fst (uuidv4 env (world s)))
            (toISOString (newDate env (snd (uuidv4 env (world s))))) rf ins sf) (db s))"
  using assms
  by (simp add: complete_try_def Let_def split: prod.splits option.splits sum.splits)

lemma complete_project_db:
  assumes "\<not> falsy (body_projectName b)" "body_teamMembers b \<noteq> None"
    "\<not> falsy (body_projectPath b)"
    and "body_readmeFile b = Some rf" "body_installationFile b = Some ins"
    "body_sourceFile b = Some sf"
  shows "db (snd (complete_project env b s))
     = snd (saveProject
         (buildProjectData env b (fst (uuidv4 env (world s)))
            (toISOString (newDate env (snd (uuidv4 env (world s))))) rf ins sf) (db s))"
  using assms(1-3) complete_try_db [OF assms(4-6), of env s]
  by (auto simp: complete_project_def logError_def split: prod.splits sum.splits)

lemma buildProjectData_sel:
  "recordId (buildProjectData env b i t rf ins sf) = i"
  "timestamp (buildProjectData env b i t rf ins sf) = t"
  "projectName (buildProjectData env b i t rf ins sf) = the (body_projectName b)"
  "projectPath (buildProjectData env b i t rf ins sf) = the (body_projectPath b)"
  "fileSize (readme (files (buildProjectData env b i t rf ins sf)))
     = (case argSize rf of None \<Rightarrow> 0 | Some n \<Rightarrow> n)"
  by (simp_all add: buildProjectData_def Let_def)

lemma saveProject_fresh:
  assumes "find (\<lambda>p. projectName p = projectName pd \<and> projectPath p = projectPath pd)
             (records d) = None"
  shows "records (snd (saveProject pd d)) = records d @ [pd, pd]"
  using assms by (simp add: saveProject_def getAllProjects_def createProject_def)

lemma saveProject_twice:
  assumes "projectName pd' = projectName pd" "projectPath pd' = projectPath pd"
  shows "records (snd (saveProject pd' \<lparr>records = [pd, pd], diskWrites = n\<rparr>))
     = [pd'\<lparr>recordId := recordId pd, timestamp := timestamp pd\<rparr>, pd,
        pd'\<lparr>recordId := recordId pd, timestamp := timestamp pd\<rparr>]"
  using assms
  by (simp add: saveProject_def getAllProjects_def createProject_def updateProject_def Let_def)

lemma sampleBody_valid:
  "\<not> falsy (body_projectName sampleBody)" "body_teamMembers sampleBody \<noteq> None"
  "\<not> falsy (body_projectPath sampleBody)"
  "body_readmeFile sampleBody = Some \<lparr>argName = Some (js ''ReadMe.txt''), argSize = Some 10\<rparr>"
  "body_installationFile sampleBody
     = Some \<lparr>argName = Some (js ''installation.pdf''), argSize = Some 20\<rparr>"
  "body_sourceFile sampleBody = Some \<lparr>argName = Some (js ''project.zip''), argSize = Some 5\<rparr>"
  by (simp_all add: sampleBody_def falsy_def js_def)

lemma sampleBodyAgain_valid:
  "\<not> falsy (body_projectName sampleBodyAgain)" "body_teamMembers sampleBodyAgain \<noteq> None"
  "\<not> falsy (body_projectPath sampleBodyAgain)"
  "body_readmeFile sampleBodyAgain
     = Some \<lparr>argName = Some (js ''ReadMe.txt''), argSize = Some 12\<rparr>"
  "body_installationFile sampleBodyAgain
     = Some \<lparr>argName = Some (js ''installation.pdf''), argSize = Some 20\<rparr>"
  "body_sourceFile sampleBodyAgain
     = Some \<lparr>argName = Some (js ''project.zip''), argSize = Some 5\<rparr>"
  by (simp_all add: sampleBodyAgain_def sampleBody_def falsy_def js_def)

lemma first_completion:
  "records (db (snd (complete_project env sampleBody \<lparr>world = w, db = emptyStore, errlog = []\<rparr>)))
     = (let pd = buildProjectData env sampleBody (fst (uuidv4 env w))
                   (toISOString (newDate env (snd (uuidv4 env w))))
                   \<lparr>argName = Some (js ''ReadMe.txt''), argSize = Some 10\<rparr>
                   \<lparr>argName = Some (js ''installation.pdf''), argSize = Some 20\<rparr>
                   \<lparr>argName = Some (js ''project.zip''), argSize = Some 5\<rparr>
        in [pd, pd])"
  unfolding complete_project_db [OF sampleBody_valid]
  by (simp add: saveProject_fresh emptyStore_def Let_def)

lemma first_completion_writes:
  "diskWrites (db (snd (complete_project env sampleBody
      \<lparr>world = w, db = emptyStore, errlog = []\<rparr>))) = 2"
  unfolding complete_project_db [OF sampleBody_valid]
  by (simp add: saveProject_def getAllProjects_def createProject_def emptyStore_def)

text \<open>
  C3. The claim asks for pairwise distinct identifiers in every reachable store. One
  complete-project request on the empty store, on any platform, leaves two records with
  the identifier \<open>uuidv4\<close> returned: the record is created on the \<open>else\<close> branch
  and created again by line 308.
\<close>

theorem complete_project_stores_id_twice:
  "map recordId (records (db (serve env [PostCompleteProject sampleBody]
       \<lparr>world = w, db = emptyStore, errlog = []\<rparr>)))
     = [fst (uuidv4 env w), fst (uuidv4 env w)]
   \<and> \<not> distinct (map recordId (records (db (serve env [PostCompleteProject sampleBody]
       \<lparr>world = w, db = emptyStore, errlog = []\<rparr>))))"
  by (simp add: handle_def first_completion Let_def buildProjectData_sel)

text \<open>
  C1. The claim asks for exactly one record after two complete-project requests with
  the same name and path. On any platform, from the empty store, there are three: the
  second request updates the first of the two records the first request left and
  appends the record once more, so the record in the middle still carries the file
  metadata of the first request (README of 10 bytes, not 12).
\<close>

theorem complete_project_twice_three_records:
  "length (filter (\<lambda>r. projectName r = js ''Test App'' \<and> projectPath r = js ''/data/Test_App'')
      (records (db (serve env [PostCompleteProject sampleBody, PostCompleteProject sampleBodyAgain]
         \<lparr>world = w, db = emptyStore, errlog = []\<rparr>)))) = 3
   \<and> map (\<lambda>r. fileSize (readme (files r)))
      (records (db (serve env [PostCompleteProject sampleBody, PostCompleteProject sampleBodyAgain]
         \<lparr>world = w, db = emptyStore, errlog = []\<rparr>))) = [12, 10, 12]"
proof -
  let ?s0 = "\<lparr>world = w, db = emptyStore, errlog = []\<rparr>"
  let ?s1 = "snd (complete_project env sampleBody ?s0)"
  let ?pd = "buildProjectData env sampleBody (fst (uuidv4 env w))
                   (toISOString (newDate env (snd (uuidv4 env w))))
                   \<lparr>argName = Some (js ''ReadMe.txt''), argSize = Some 10\<rparr>
                   \<lparr>argName = Some (js ''installation.pdf''), argSize = Some 20\<rparr>
                   \<lparr>argName = Some (js ''project.zip''), argSize = Some 5\<rparr>"
  let ?pd' = "buildProjectData env sampleBodyAgain (fst (uuidv4 env (world ?s1)))
                   (toISOString (newDate env (snd (uuidv4 env (world ?s1)))))
                   \<lparr>argName = Some (js ''ReadMe.txt''), argSize = Some 12\<rparr>
                   \<lparr>argName = Some (js ''installation.pdf''), argSize = Some 20\<rparr>
                   \<lparr>argName = Some (js ''project.zip''), argSize = Some 5\<rparr>"
  have d1: "db ?s1 = \<lparr>records = [?pd, ?pd], diskWrites = 2\<rparr>"
    using first_completion [of env w] first_completion_writes [of env w]
    by (simp add: Let_def)
  have same: "projectName ?pd' = projectName ?pd" "projectPath ?pd' = projectPath ?pd"
    by (simp_all add: buildProjectData_sel sampleBodyAgain_def)
  have names: "projectName ?pd = js ''Test App''" "projectPath ?pd = js ''/data/Test_App''"
    by (simp_all add: buildProjectData_sel sampleBody_def)
  have d2: "records (db (snd (complete_project env sampleBodyAgain ?s1)))
      = [?pd'\<lparr>recordId := recordId ?pd, timestamp := timestamp ?pd\<rparr>, ?pd,
         ?pd'\<lparr>recordId := recordId ?pd, timestamp := timestamp ?pd\<rparr>]"
    unfolding complete_project_db [OF sampleBodyAgain_valid] d1
    by (rule saveProject_twice [OF same])
  have run: "serve env [PostCompleteProject sampleBody, PostCompleteProject sampleBodyAgain] ?s0
      = snd (complete_project env sampleBodyAgain ?s1)"
    by (simp add: handle_def)
  show ?thesis
    unfolding run d2 using same names
    by (simp add: buildProjectData_sel)
qed

subsection \<open>The size of student-info.txt\<close>

lemma pad_one: "pad 1 k = [digit k]"
  by simp
lemma pad_numeral:
  "pad (numeral n) k = pad (pred_numeral n) (k div 10) @ [digit k]"
  by (simp only: numeral_eq_Suc pad.simps)

lemma sample_iso: "toISOString sampleDate = js ''2025-01-02T03:04:05.678Z''"
  by (simp add: toISOString_def isoYear_def sampleDate_def pad_numeral pad_one digit_def js_def)

lemma sample_header:
  "studentInfoText (js ''Test App'') (toISOString sampleDate)
     [\<lparr>name = [0x4A, 0x6F, 0x73, 0xE9], usn = js ''1RV21CS002''\<rparr>]
   = js ''STUDENT INFORMATION'' @ [0x0A] @ js ''=================='' @ [0x0A] @
     js ''Project: Test App'' @ [0x0A] @ js ''Date: 2025-01-02T03:04:05.678Z'' @ [0x0A, 0x0A] @
     js ''Member 1:'' @ [0x0A] @ js ''Name: Jos'' @ [0xE9, 0x0A] @ js ''USN: 1RV21CS002''"
  unfolding sample_iso
  by (simp add: studentInfoText_def studentInfoContent_def memberLines_def newline_def
        showNat.simps digit_def js_def)

lemma sample_header_length:
  "length (studentInfoText (js ''Test App'') (toISOString sampleDate)
     [\<lparr>name = [0x4A, 0x6F, 0x73, 0xE9], usn = js ''1RV21CS002''\<rparr>]) = 125"
  unfolding sample_header by (simp add: js_def)


lemma sample_header_bytes:
  "length (utf8Encode (studentInfoText (js ''Test App'') (toISOString sampleDate)
     [\<lparr>name = [0x4A, 0x6F, 0x73, 0xE9], usn = js ''1RV21CS002''\<rparr>])) = 126"
  unfolding sample_header
  by (simp add: js_def utf8Of_def loneUnit_def isHighSurrogate_def isLowSurrogate_def)


lemma sampleEnv_sel:
  "path_join sampleEnv = posix_join"
  "path_extname sampleEnv = posix_extname"
  "fs_existsSync sampleEnv = disk_existsSync"
  "fs_stat_size sampleEnv = disk_stat_size"
  "fs_move sampleEnv = disk_move"
  "fs_writeFile sampleEnv = disk_writeFile"
  "fs_writeJson sampleEnv = (\<lambda>p d. disk_writeFile p (js ''{}''))"
  "fs_remove sampleEnv = disk_remove"
  "uuidv4 sampleEnv = disk_uuidv4"
  "newDate sampleEnv = clock"
  "toLocaleString sampleEnv = toISOString"
  by (simp_all add: sampleEnv_def posixDisk_def)

lemma sample_uuid: "disk_uuidv4 sampleDisk = (js ''id-0'', sampleDisk\<lparr>counter := Suc 0\<rparr>)"
  by (simp add: disk_uuidv4_def sampleDisk_def showNat.simps digit_def js_def)

lemma sample_join_info:
  "posix_join [js ''/data/Test_App'', js ''student-info.txt''] = js ''/data/Test_App/student-info.txt''"
  "posix_join [js ''/data/Test_App'', js ''project-info.json''] = js ''/data/Test_App/project-info.json''"
  by (simp_all add: posix_join_def posix_normalize_def js_def slash_def dot_def)

lemma sample_info_absent:
  "\<not> disk_existsSync (js ''/data/Test_App/student-info.txt'') (sampleDisk\<lparr>counter := Suc 0\<rparr>)"
  by (simp add: disk_existsSync_def sampleDisk_def js_def)

lemma sample_write_info:
  "disk_writeFile (js ''/data/Test_App/student-info.txt'') content (sampleDisk\<lparr>counter := Suc 0\<rparr>)
   = (None, sampleDisk\<lparr>counter := Suc 0,
        entries := (js ''/data/Test_App/student-info.txt'', Some (utf8Encode content))
                     # entries sampleDisk\<rparr>)"
  by (simp add: disk_writeFile_def sampleDisk_def js_def)

lemma sample_write_json:
  "disk_writeFile (js ''/data/Test_App/project-info.json'') (js ''{}'')
     (sampleDisk\<lparr>counter := Suc 0,
        entries := (js ''/data/Test_App/student-info.txt'', Some bs) # entries sampleDisk\<rparr>)
   = (None, sampleDisk\<lparr>counter := Suc 0,
        entries := (js ''/data/Test_App/project-info.json'', Some (utf8Encode (js ''{}'')))
                     # (js ''/data/Test_App/student-info.txt'', Some bs) # entries sampleDisk\<rparr>)"
  by (simp add: disk_writeFile_def sampleDisk_def js_def)

lemma sample_stat_info:
  "disk_stat_size (js ''/data/Test_App/student-info.txt'')
     (sampleDisk\<lparr>counter := Suc 0,
        entries := (js ''/data/Test_App/project-info.json'', Some cs)
                     # (js ''/data/Test_App/student-info.txt'', Some bs) # entries sampleDisk\<rparr>)
   = Inr (length bs)"
  by (simp add: disk_stat_size_def js_def)

lemma saveProject_fst:
  "projectName (fst (saveProject pd d)) = projectName pd"
  "projectPath (fst (saveProject pd d)) = projectPath pd"
  "files (fst (saveProject pd d)) = files pd"
  by (simp_all add: saveProject_def Let_def split: option.splits)

lemma complete_try_creates_student_info:
  assumes "body_readmeFile b = Some rf" and "body_installationFile b = Some ins"
    and "body_sourceFile b = Some sf"
    and "uuidv4 env (world s) = (i, w1)"
    and "\<not> fs_existsSync env (path_join env [the (body_projectPath b), js ''student-info.txt'']) w1"
    and "fs_writeFile env (path_join env [the (body_projectPath b), js ''student-info.txt''])
           (studentInfoText (the (body_projectName b)) (toLocaleString env (newDate env w1))
              (the (body_teamMembers b))) w1 = (None, w2)"
    and "\<And>pd. fs_writeJson env (path_join env [the (body_projectPath b), js ''project-info.json''])
           pd w2 = (None, w3)"
  shows "\<exists>pd s'. complete_try env b s = (Inr pd, s') \<and> world s' = w3
           \<and> map_option fileSize (studentInfo (files pd))
               = Some (length (studentInfoText (the (body_projectName b))
                    (toLocaleString env (newDate env w1)) (the (body_teamMembers b))))"
  using assms
  by (simp add: complete_try_def Let_def case_prod_beta ensureStudentInfo_def saveProject_fst
        buildProjectData_sel)


lemma sampleBodyAccent_sel:
  "\<not> falsy (body_projectName sampleBodyAccent)" "body_teamMembers sampleBodyAccent \<noteq> None"
  "\<not> falsy (body_projectPath sampleBodyAccent)"
  "body_readmeFile sampleBodyAccent
     = Some \<lparr>argName = Some (js ''ReadMe.txt''), argSize = Some 10\<rparr>"
  "body_installationFile sampleBodyAccent
     = Some \<lparr>argName = Some (js ''installation.pdf''), argSize = Some 20\<rparr>"
  "body_sourceFile sampleBodyAccent
     = Some \<lparr>argName = Some (js ''project.zip''), argSize = Some 5\<rparr>"
  "the (body_projectName sampleBodyAccent) = js ''Test App''"
  "the (body_projectPath sampleBodyAccent) = js ''/data/Test_App''"
  "the (body_teamMembers sampleBodyAccent)
     = [\<lparr>name = [0x4A, 0x6F, 0x73, 0xE9], usn = js ''1RV21CS002''\<rparr>]"
  by (simp_all add: sampleBodyAccent_def sampleBody_def falsy_def js_def)

text \<open>
  C8. The claim asks that the size recorded for \<open>student-info.txt\<close> be the size of
  the file in bytes, also when the handler creates the file. Here the file is absent,
  the handler writes it and records \<open>studentInfoHeader.length\<close>, 125 code units,
  while the file it wrote as UTF-8 has 126 bytes.
\<close>

theorem complete_project_student_info_size:
  "\<not> fs_existsSync sampleEnv (js ''/data/Test_App/student-info.txt'') (world sampleServer)
   \<and> recordedStudentInfoSize
         (fst (handle sampleEnv (PostCompleteProject sampleBodyAccent) sampleServer)) = Some 125
   \<and> fs_stat_size sampleEnv (js ''/data/Test_App/student-info.txt'')
         (world (snd (handle sampleEnv (PostCompleteProject sampleBodyAccent) sampleServer)))
       = Inr 126"
proof -
  let ?H = "studentInfoText (js ''Test App'') (toISOString sampleDate)
     [\<lparr>name = [0x4A, 0x6F, 0x73, 0xE9], usn = js ''1RV21CS002''\<rparr>]"
  let ?w1 = "sampleDisk\<lparr>counter := Suc 0\<rparr>"
  let ?w2 = "sampleDisk\<lparr>counter := Suc 0,
        entries := (js ''/data/Test_App/student-info.txt'', Some (utf8Encode ?H))
                     # entries sampleDisk\<rparr>"
  let ?w3 = "sampleDisk\<lparr>counter := Suc 0,
        entries := (js ''/data/Test_App/project-info.json'', Some (utf8Encode (js ''{}'')))
                     # (js ''/data/Test_App/student-info.txt'', Some (utf8Encode ?H))
                     # entries sampleDisk\<rparr>"
  have clock: "clock ?w1 = sampleDate" by (simp add: sampleDisk_def)
  have absent0:
    "\<not> fs_existsSync sampleEnv (js ''/data/Test_App/student-info.txt'') (world sampleServer)"
    by (simp add: sampleEnv_sel disk_existsSync_def sampleServer_def sampleDisk_def js_def)
  have u: "uuidv4 sampleEnv (world sampleServer) = (js ''id-0'', ?w1)"
    by (simp add: sampleEnv_sel sampleServer_def sample_uuid)
  have a: "\<not> fs_existsSync sampleEnv
      (path_join sampleEnv [the (body_projectPath sampleBodyAccent), js ''student-info.txt'']) ?w1"
    by (simp only: sampleEnv_sel sampleBodyAccent_sel sample_join_info sample_info_absent
          not_False_eq_True)
  have wf: "fs_writeFile sampleEnv
      (path_join sampleEnv [the (body_projectPath sampleBodyAccent), js ''student-info.txt''])
      (studentInfoText (the (body_projectName sampleBodyAccent))
         (toLocaleString sampleEnv (newDate sampleEnv ?w1))
         (the (body_teamMembers sampleBodyAccent))) ?w1 = (None, ?w2)"
    by (simp only: sampleEnv_sel sampleBodyAccent_sel sample_join_info clock sample_write_info)
  have wj: "fs_writeJson sampleEnv
      (path_join sampleEnv [the (body_projectPath sampleBodyAccent), js ''project-info.json''])
      pd ?w2 = (None, ?w3)" for pd
    by (simp only: sampleEnv_sel sampleBodyAccent_sel sample_join_info sample_write_json)
  from complete_try_creates_student_info
         [OF sampleBodyAccent_sel(4) sampleBodyAccent_sel(5) sampleBodyAccent_sel(6) u a wf wj]
  obtain pd s' where ct: "complete_try sampleEnv sampleBodyAccent sampleServer = (Inr pd, s')"
    and w: "world s' = ?w3"
    and sz: "map_option fileSize (studentInfo (files pd)) = Some (length ?H)"
    by (auto simp only: sampleEnv_sel sampleBodyAccent_sel clock)
  have run: "handle sampleEnv (PostCompleteProject sampleBodyAccent) sampleServer
     = (Replied (reply 200 True (Completed pd (js ''Project submitted successfully''))), s')"
    using sampleBodyAccent_sel(1-3) by (simp add: handle_def complete_project_def ct)
  have recorded: "recordedStudentInfoSize
      (fst (handle sampleEnv (PostCompleteProject sampleBodyAccent) sampleServer)) = Some 125"
    unfolding run by (simp add: recordedStudentInfoSize_def sz sample_header_length)
  have on_disk: "fs_stat_size sampleEnv (js ''/data/Test_App/student-info.txt'')
         (world (snd (handle sampleEnv (PostCompleteProject sampleBodyAccent) sampleServer)))
       = Inr 126"
    unfolding run by (simp add: w sampleEnv_sel sample_stat_info sample_header_bytes)
  from absent0 recorded on_disk show ?thesis by simp
qed

subsection \<open>Whole-project download\<close>

text \<open>
  The handler reads \<open>req.params.id\<close>, but the route binds \<open>projectId\<close>: the key
  it looks up is undefined, and no record has an undefined identifier.
\<close>

lemma download_project_not_found:
  "handle env (GetDownloadProject v) s
     = (Replied (reply 404 False (ErrorMsg (js ''Project not found''))), s)"
proof -
  have "js ''projectId'' \<noteq> js ''id''" by (simp add: js_def)
  then have "map_of [(js ''projectId'', v)] (js ''id'') = None" by simp
  moreover have "getProjectById None d = None" for d
    by (simp add: getProjectById_def find_None_iff)
  ultimately show ?thesis
    by (simp add: handle_def download_project_def)
qed

text \<open>
  C2. The claim asks for a ZIP archive when the identifier is that of a stored record
  whose folder exists. Here the record \<open>id-0\<close> is stored and its folder is on the
  disk, and the answer to \<open>GET /api/download-project/id-0\<close> is 404, "Project not
  found".
\<close>

theorem download_project_stored_record:
  "getProjectById (Some (js ''id-0'')) (db sampleStored) = Some sampleProject
   \<and> fs_existsSync sampleEnv (projectPath sampleProject) (world sampleStored)
   \<and> handle sampleEnv (GetDownloadProject (js ''id-0'')) sampleStored
       = (Replied (reply 404 False (ErrorMsg (js ''Project not found''))), sampleStored)"
proof -
  have "getProjectById (Some (js ''id-0'')) (db sampleStored) = Some sampleProject"
    by (simp add: getProjectById_def sampleStored_def sampleProject_def)
  moreover have "fs_existsSync sampleEnv (projectPath sampleProject) (world sampleStored)"
    by (simp add: sampleEnv_def posixDisk_def disk_existsSync_def sampleStored_def
          sampleProject_def sampleDisk_def)
  ultimately show ?thesis
    by (simp add: download_project_not_found)
qed

subsection \<open>Legacy folder migration\<close>

lemma map_recordId_replaceFirst:
  "recordId y = i \<Longrightarrow> map recordId (replaceFirst (\<lambda>r. recordId r = i) y xs) = map recordId xs"
  by (induction xs) auto

lemma updateProject_ids:
  "recordId u = i \<Longrightarrow> map recordId (records (updateProject i u d)) = map recordId (records d)"
  by (simp add: updateProject_def map_recordId_replaceFirst)

lemma updateProject_writes:
  "i \<in> set (map recordId (records d)) \<Longrightarrow> diskWrites (updateProject i u d) = Suc (diskWrites d)"
  by (auto simp: updateProject_def list_ex_iff)

lemma backfillStudentInfo_id:
  "backfillStudentInfo env p w = (Inr (Some u), w') \<Longrightarrow> recordId u = recordId p"
  by (auto simp: backfillStudentInfo_def Let_def split: if_splits prod.splits option.splits)

text \<open>What one run of the \<open>try\<close> body can do to the store and the count.\<close>

lemma migrateProject_effect:
  assumes "recordId p \<in> set (map recordId (records (db s)))"
    and "migrateProject env p (s, n) = (r, s', n')"
  shows "errlog s' = errlog s
     \<and> map recordId (records (db s')) = map recordId (records (db s))
     \<and> (r \<noteq> None \<longrightarrow> n' = n \<and> db s' = db s)
     \<and> ((n' = n \<and> diskWrites (db s') = diskWrites (db s))
        \<or> (n' = Suc n \<and> diskWrites (db s') = Suc (diskWrites (db s))))"
  using assms
  by (auto simp: migrateProject_def Let_def updateProject_ids updateProject_writes
        dest: backfillStudentInfo_id
        split: if_splits prod.splits sum.splits option.splits)


lemma migrateStep_effect:
  assumes "recordId p \<in> set (map recordId (records (db s)))"
    and "migrateStep env p (s, n) = (s', n')"
  shows "map recordId (records (db s')) = map recordId (records (db s))
     \<and> n' + diskWrites (db s) = n + diskWrites (db s')"
proof (cases "migrateProject env p (s, n)")
  case (fields r s1 n1)
  from migrateProject_effect [OF assms(1) fields] assms(2) fields show ?thesis
    by (cases r) (auto simp: migrateStep_def logError_def)
qed

lemma migrateAll_count:
  assumes "set (map recordId ps) \<subseteq> set (map recordId (records (db s)))"
    and "migrateAll env ps (s, n) = (s', n')"
  shows "n' + diskWrites (db s) = n + diskWrites (db s')
     \<and> map recordId (records (db s')) = map recordId (records (db s))"
  using assms
proof (induction ps arbitrary: s n)
  case Nil
  then show ?case by simp
next
  case (Cons p ps)
  obtain s1 n1 where step: "migrateStep env p (s, n) = (s1, n1)"
    by (cases "migrateStep env p (s, n)")
  from Cons.prems(1) have here: "recordId p \<in> set (map recordId (records (db s)))"
    by simp
  note eff = migrateStep_effect [OF here step]
  from Cons.prems(1) eff have rest: "set (map recordId ps) \<subseteq> set (map recordId (records (db s1)))"
    by simp
  from Cons.prems(2) step have "migrateAll env ps (s1, n1) = (s', n')"
    by simp
  from Cons.IH [OF rest this] eff show ?case
    by simp
qed

lemma migrateAll_append:
  "migrateAll env (ps @ qs) st = migrateAll env qs (migrateAll env ps st)"
  by (induction ps arbitrary: st) simp_all

lemma update_existing_folders_count:
  "update_existing_folders env s = (r, s') \<Longrightarrow>
   \<exists>n. r = Replied (reply 200 True
           (Migrated (js ''Updated '' @ showNat n @ js '' existing folders with new file structure'') n))
       \<and> n + diskWrites (db s) = diskWrites (db s')
       \<and> (s', n) = migrateAll env (getAllProjects (db s)) (s, 0)"
proof -
  assume run: "update_existing_folders env s = (r, s')"
  obtain s1 n where all: "migrateAll env (getAllProjects (db s)) (s, 0) = (s1, n)"
    by (cases "migrateAll env (getAllProjects (db s)) (s, 0)")
  have "set (map recordId (getAllProjects (db s))) \<subseteq> set (map recordId (records (db s)))"
    by (simp add: getAllProjects_def)
  from migrateAll_count [OF this all] have "n + diskWrites (db s) = diskWrites (db s1)"
    by simp
  with run all show ?thesis
    by (auto simp: update_existing_folders_def Let_def)
qed

text \<open>
  C7. When the \<open>try\<close> body throws for one project \<open>p\<close> of the store, the error is
  logged and the loop goes on with the projects after \<open>p\<close>, from the state the failure
  left: the count and the store are what they were before \<open>p\<close>. The endpoint always
  answers 200 with \<open>success: true\<close>, and the count it reports is the number of
  \<open>updateProject\<close> calls the run made (the rewrites of the store's file).
\<close>

theorem update_existing_folders_isolates_errors:
  assumes "getAllProjects (db s) = ps @ p # qs"
    and "migrateProject env p (migrateAll env ps (s, 0)) = (Some e, s1, n1)"
  shows "case migrateAll env qs
                (logError (js ''Error updating project '' @ recordId p @ js '':'') e s1, n1) of
           (s', n) \<Rightarrow>
             update_existing_folders env s
               = (Replied (reply 200 True
                    (Migrated (js ''Updated '' @ showNat n
                                 @ js '' existing folders with new file structure'') n)), s')
             \<and> n + diskWrites (db s) = diskWrites (db s')
             \<and> n1 = snd (migrateAll env ps (s, 0))
             \<and> db s1 = db (fst (migrateAll env ps (s, 0)))"
proof -
  obtain s0 n0 where before: "migrateAll env ps (s, 0) = (s0, n0)"
    by (cases "migrateAll env ps (s, 0)")
  obtain s' n where after:
    "migrateAll env qs
       (logError (js ''Error updating project '' @ recordId p @ js '':'') e s1, n1) = (s', n)"
    by (cases "migrateAll env qs
       (logError (js ''Error updating project '' @ recordId p @ js '':'') e s1, n1)")
  have step: "migrateStep env p (s0, n0)
      = (logError (js ''Error updating project '' @ recordId p @ js '':'') e s1, n1)"
    using assms(2) before by (simp add: migrateStep_def)
  have whole: "migrateAll env (getAllProjects (db s)) (s, 0) = (s', n)"
    unfolding assms(1) migrateAll_append by (simp add: before step after)
  obtain r s2 where run: "update_existing_folders env s = (r, s2)"
    by (cases "update_existing_folders env s")
  from update_existing_folders_count [OF run] whole
  have reply: "update_existing_folders env s
               = (Replied (reply 200 True
                    (Migrated (js ''Updated '' @ showNat n
                                 @ js '' existing folders with new file structure'') n)), s')"
    and count: "n + diskWrites (db s) = diskWrites (db s')"
    using run by auto
  have "set (map recordId ps) \<subseteq> set (map recordId (records (db s)))"
    using assms(1) by (auto simp: getAllProjects_def)
  then have ids: "map recordId (records (db s0)) = map recordId (records (db s))"
    using migrateAll_count [OF _ before] by simp
  have "recordId p \<in> set (map recordId (records (db s0)))"
    unfolding ids using assms(1) by (auto simp: getAllProjects_def)
  from migrateProject_effect [OF this] assms(2) before
  have "n1 = n0 \<and> db s1 = db s0"
    by auto
  with reply count after before show ?thesis
    by simp
qed

lemma legacy_joins:
  "posix_join [js ''/data/A'', js ''README''] = js ''/data/A/README''"
  "posix_join [js ''/data/A'', js ''2.README''] = js ''/data/A/2.README''"
  "posix_join [js ''/data/B'', js ''README''] = js ''/data/B/README''"
  "posix_join [js ''/data/B'', js ''2.README''] = js ''/data/B/2.README''"
  "posix_join [js ''/data/B'', js ''INSTALLATION''] = js ''/data/B/INSTALLATION''"
  "posix_join [js ''/data/B'', js ''1.INSTALLATION''] = js ''/data/B/1.INSTALLATION''"
  "posix_join [js ''/data/B'', js ''SOURCE''] = js ''/data/B/SOURCE''"
  "posix_join [js ''/data/B'', js ''3.SOURCE''] = js ''/data/B/3.SOURCE''"
  "posix_join [js ''/data/B'', js ''student-info.txt''] = js ''/data/B/student-info.txt''"
  "posix_join [js ''/data/B'', js ''team-members.txt''] = js ''/data/B/team-members.txt''"
  "posix_join [js ''/data/B'', js ''4.Student-info.txt''] = js ''/data/B/4.Student-info.txt''"
  by (simp_all add: posix_join_def posix_normalize_def js_def slash_def dot_def)

lemma legacy_exists:
  "disk_existsSync (js ''/data/A'') legacyDisk"
  "disk_existsSync (js ''/data/A/README'') legacyDisk"
  "\<not> disk_existsSync (js ''/data/A/2.README'') legacyDisk"
  "disk_existsSync (js ''/data/B'') legacyDisk"
  "\<not> disk_existsSync (js ''/data/B/README'') legacyDisk"
  "\<not> disk_existsSync (js ''/data/B/INSTALLATION'') legacyDisk"
  "disk_existsSync (js ''/data/B/SOURCE'') legacyDisk"
  "\<not> disk_existsSync (js ''/data/B/3.SOURCE'') legacyDisk"
  by (simp_all add: disk_existsSync_def legacyDisk_def js_def)

lemma legacy_move_denied:
  "disk_move (js ''/data/A/README'') (js ''/data/A/2.README'') False legacyDisk
     = (Some (FsError (js ''EACCES'')), legacyDisk)"
  by (simp add: disk_move_def legacy_exists) (simp add: legacyDisk_def)

lemma legacy_move_source:
  "disk_move (js ''/data/B/SOURCE'') (js ''/data/B/3.SOURCE'') False legacyDisk
     = (None, legacyDiskB)"
  by (simp add: disk_move_def legacy_exists)
     (simp add: legacyDisk_def legacyDiskB_def under_def js_def slash_def)

lemma legacy_exists_after:
  "disk_existsSync (js ''/data/B/student-info.txt'') legacyDiskB"
  by (simp add: disk_existsSync_def legacyDiskB_def js_def)

lemma legacy_sel:
  "projectPath legacyA = js ''/data/A''" "projectPath legacyB = js ''/data/B''"
  "recordId legacyA = js ''id-A''" "recordId legacyB = js ''id-B''"
  by (simp_all add: legacyA_def legacyB_def)

lemma legacyA_throws:
  "migrateProject sampleEnv legacyA (legacyServer, 0)
     = (Some (FsError (js ''EACCES'')), legacyServer, 0)"
  by (simp add: migrateProject_def renameLegacy_def Let_def sampleEnv_sel legacy_sel
        legacy_joins legacy_exists legacy_move_denied legacyServer_def)


lemma legacyB_updated:
  "migrateProject sampleEnv legacyB (s\<lparr>world := legacyDisk\<rparr>, n)
     = (None, s\<lparr>world := legacyDiskB, db := updateProject (js ''id-B'') legacyB (db s)\<rparr>, Suc n)"
  by (simp add: migrateProject_def renameLegacy_def backfillStudentInfo_def Let_def
        sampleEnv_sel legacy_sel legacy_joins legacy_exists legacy_move_source
        legacy_exists_after)

theorem update_existing_folders_isolates_errors_witness:
  "fst (update_existing_folders sampleEnv legacyServer)
     = Replied (reply 200 True
         (Migrated (js ''Updated 1 existing folders with new file structure'') 1))
   \<and> errlog (snd (update_existing_folders sampleEnv legacyServer))
     = [(js ''Error updating project id-A:'', FsError (js ''EACCES''))]
   \<and> diskWrites (db (snd (update_existing_folders sampleEnv legacyServer))) = 3"
proof -
  let ?logged = "logError (js ''Error updating project '' @ recordId legacyA @ js '':'')
      (FsError (js ''EACCES'')) legacyServer"
  have h1: "getAllProjects (db legacyServer) = [] @ legacyA # [legacyB]"
    by (simp add: getAllProjects_def legacyServer_def)
  have h2: "migrateProject sampleEnv legacyA (migrateAll sampleEnv [] (legacyServer, 0))
      = (Some (FsError (js ''EACCES'')), legacyServer, 0)"
    by (simp add: legacyA_throws)
  have w: "?logged = ?logged\<lparr>world := legacyDisk\<rparr>"
    by (simp add: logError_def legacyServer_def)
  have rest: "migrateAll sampleEnv [legacyB] (?logged, 0)
      = (?logged\<lparr>world := legacyDiskB,
                  db := updateProject (js ''id-B'') legacyB (db ?logged)\<rparr>, Suc 0)"
    by (subst w) (simp add: migrateStep_def legacyB_updated)
  have msg: "js ''Updated '' @ showNat (Suc 0) @ js '' existing folders with new file structure''
      = js ''Updated 1 existing folders with new file structure''"
    by (simp add: showNat.simps digit_def js_def)
  have log: "errlog ?logged = [(js ''Error updating project id-A:'', FsError (js ''EACCES''))]"
    by (simp add: logError_def legacyServer_def legacy_sel js_def)
  have writes: "diskWrites (updateProject (js ''id-B'') legacyB (db ?logged)) = 3"
    by (simp add: updateProject_def logError_def legacyServer_def legacy_sel js_def)
  from update_existing_folders_isolates_errors [OF h1 h2]
  have "update_existing_folders sampleEnv legacyServer
      = (Replied (reply 200 True
           (Migrated (js ''Updated 1 existing folders with new file structure'') 1)),
         ?logged\<lparr>world := legacyDiskB,
                  db := updateProject (js ''id-B'') legacyB (db ?logged)\<rparr>)"
    unfolding rest by (simp add: msg)
  then show ?thesis
    by (simp add: log writes)
qed

end
